theory Spec2Isabelle
  imports Complex_Main
begin

section \<open>The VRNN notebook (examples/vrnn.ipynb)\<close>

text \<open>
  The notebook composes four small network modules over row sequences of MNIST images
  and drives their training. This theory embeds its cells: the dimensions, the tensor
  operations the modules call, the modules and their construction, the batch loop
  \<open>data_loop\<close>, the generation loop \<open>plot_image_from_latent\<close> and the epoch loop.

  Tensor entries are real numbers in most of this theory. The statements there are
  about shapes, about which values are handed to which call and about sums, and the
  rounding of the device's float32 arithmetic does not enter them. The bounds on what
  the activations return are another matter: for them the modules that end in an
  activation are embedded a second time, over float32 numbers with their rounding. A
  tensor of rank two (batch by features) is a list of rows, one of rank three a list of
  those.

  The tensor library and the probabilistic framework are not part of the notebook. In
  the forward passes their operations are total functions: the library rejects operands
  whose shapes do not fit, where the list operations below stop at the shorter operand,
  so what is said about values is said for tensors of the shapes the layers are built
  for. The forward pass of the recurrence is also written as the library runs it, in the
  state of the run and raising on operands that do not fit. What the notebook only calls
  (drawing from a distribution, a likelihood, a divergence, the optimizer's step) is a
  parameter of the definitions that use it; \<open>train\<close> and \<open>test\<close> of a model are a
  parameter of the batch loop.
\<close>

subsection \<open>Dimensions (cells 1, 2 and 4)\<close>

definition batch_size :: nat where
  "batch_size = 32"

definition epochs :: nat where
  "epochs = 10"

text \<open>The third component of what \<open>init_dataset\<close> returns.\<close>

definition fixed_t_size :: nat where
  "fixed_t_size = 28"

definition x_dim :: nat where
  "x_dim = 28"

definition h_dim :: nat where
  "h_dim = 100"

definition z_dim :: nat where
  "z_dim = 64"

text \<open>
  Cell 2 binds \<open>t_max\<close> to \<open>fixed_t_size\<close>; cell 4 rebinds it, before any use,
  to \<open>x_dim\<close>.
\<close>

definition t_max :: nat where
  "t_max = x_dim"

subsection \<open>Tensor operations\<close>

type_synonym vec = "real list"
type_synonym mat = "vec list"
type_synonym tensor3 = "mat list"

text \<open>\<open>torch.zeros(b, n)\<close>.\<close>

definition zeros :: "nat \<Rightarrow> nat \<Rightarrow> mat" where
  "zeros b n = replicate b (replicate n 0)"

text \<open>\<open>torch.cat((a, b), dim=-1)\<close> on tensors of rank two: row by row.\<close>

definition cat_last :: "mat \<Rightarrow> mat \<Rightarrow> mat" where
  "cat_last a b = map2 (@) a b"

text \<open>
  \<open>t.transpose(0, 1)\<close> on a tensor of rank three. The size of the second axis is
  read off the first element, so a tensor whose first axis is empty has no second axis
  here.
\<close>

definition transpose_0_1 :: "tensor3 \<Rightarrow> tensor3" where
  "transpose_0_1 t =
     (case t of
        [] \<Rightarrow> []
      | m # _ \<Rightarrow> map (\<lambda>j. map (\<lambda>u. u ! j) t) [0..<length m])"

definition relu :: "real \<Rightarrow> real" where
  "relu v = max 0 v"

definition sigmoid :: "real \<Rightarrow> real" where
  "sigmoid v = 1 / (1 + exp (- v))"

text \<open>\<open>F.softplus\<close> with its defaults \<open>beta = 1\<close>, \<open>threshold = 20\<close>.\<close>

definition softplus :: "real \<Rightarrow> real" where
  "softplus v = (if v > 20 then v else ln (1 + exp v))"

definition dot :: "vec \<Rightarrow> vec \<Rightarrow> real" where
  "dot u v = sum_list (map2 (*) u v)"

text \<open>One row through an affine layer: \<open>W v + b\<close>, with \<open>W\<close> stored out by in.\<close>

definition affine :: "mat \<Rightarrow> vec \<Rightarrow> vec \<Rightarrow> vec" where
  "affine W b v = map2 (+) (map (\<lambda>w. dot w v) W) b"

subsection \<open>Layers and the parameter store\<close>

text \<open>
  A layer object lives at an address; the parameter store maps addresses to the current
  values. The optimizer changes the store, never the addresses the modules hold.
\<close>

type_synonym ref = nat

record linear =
  weight :: mat
  bias :: vec

record grucell =
  input_size :: nat
  hidden_size :: nat
  weight_ih :: mat
  weight_hh :: mat
  bias_ih :: vec
  bias_hh :: vec

record params =
  linear_at :: "ref \<Rightarrow> linear"
  grucell_at :: "ref \<Rightarrow> grucell"

text \<open>\<open>nn.Linear.forward\<close>: every row of the batch through the affine map.\<close>

definition Linear_forward :: "linear \<Rightarrow> mat \<Rightarrow> mat" where
  "Linear_forward l x = map (affine (weight l) (bias l)) x"

text \<open>
  \<open>nn.GRUCell.forward\<close> on one row: reset gate, update gate, candidate, and their
  blend with the previous hidden row. The three gates are the thirds of the stacked
  affine images.
\<close>

definition gru_row :: "grucell \<Rightarrow> vec \<Rightarrow> vec \<Rightarrow> vec" where
  "gru_row c v h =
     (let n = hidden_size c;
          gi = affine (weight_ih c) (bias_ih c) v;
          gh = affine (weight_hh c) (bias_hh c) h;
          r = map2 (\<lambda>a b. sigmoid (a + b)) (take n gi) (take n gh);
          u = map2 (\<lambda>a b. sigmoid (a + b)) (take n (drop n gi)) (take n (drop n gh));
          c' = map2 (\<lambda>a b. tanh (a + b)) (drop (2 * n) gi) (map2 (*) r (drop (2 * n) gh))
      in map2 (+) (map2 (\<lambda>a b. (1 - a) * b) u c') (map2 (*) u h))"

definition GRUCell_forward :: "grucell \<Rightarrow> mat \<Rightarrow> mat \<Rightarrow> mat" where
  "GRUCell_forward c x h = map2 (gru_row c) x h"

subsection \<open>Constructing layers\<close>

text \<open>
  A constructor takes the next free address, stores a layer of the requested shape
  there and returns the address. The initial entries are drawn at random by the
  framework; here they are read from an arbitrary table \<open>ini\<close>.
\<close>

record session =
  next_ref :: ref
  store :: params

text \<open>Entry \<open>(i, j)\<close> of the \<open>k\<close>-th parameter tensor of the layer at an address.\<close>

type_synonym init = "ref \<Rightarrow> nat \<Rightarrow> nat \<Rightarrow> nat \<Rightarrow> real"

definition table :: "init \<Rightarrow> ref \<Rightarrow> nat \<Rightarrow> nat \<Rightarrow> nat \<Rightarrow> mat" where
  "table ini r k rows cols = map (\<lambda>i. map (\<lambda>j. ini r k i j) [0..<cols]) [0..<rows]"

definition column :: "init \<Rightarrow> ref \<Rightarrow> nat \<Rightarrow> nat \<Rightarrow> vec" where
  "column ini r k rows = map (\<lambda>i. ini r k i 0) [0..<rows]"

definition nn_Linear :: "init \<Rightarrow> nat \<Rightarrow> nat \<Rightarrow> session \<Rightarrow> ref \<times> session" where
  "nn_Linear ini in_features out_features s =
     (let r = next_ref s;
          l = \<lparr>weight = table ini r 0 out_features in_features,
               bias = column ini r 1 out_features\<rparr>
      in (r, s\<lparr>next_ref := Suc r,
               store := (store s)\<lparr>linear_at := (linear_at (store s))(r := l)\<rparr>\<rparr>))"

definition nn_GRUCell :: "init \<Rightarrow> nat \<Rightarrow> nat \<Rightarrow> session \<Rightarrow> ref \<times> session" where
  "nn_GRUCell ini n_in n_hidden s =
     (let r = next_ref s;
          c = \<lparr>input_size = n_in, hidden_size = n_hidden,
               weight_ih = table ini r 0 (3 * n_hidden) n_in,
               weight_hh = table ini r 1 (3 * n_hidden) n_hidden,
               bias_ih = column ini r 2 (3 * n_hidden),
               bias_hh = column ini r 3 (3 * n_hidden)\<rparr>
      in (r, s\<lparr>next_ref := Suc r,
               store := (store s)\<lparr>grucell_at := (grucell_at (store s))(r := c)\<rparr>\<rparr>))"

subsection \<open>The modules (cells 4 and 5)\<close>

text \<open>
  A module object is represented by the addresses of its layers and by the module
  objects it refers to. Attributes are assigned in the constructors only, so two module
  values denote the same object exactly when they hold the same addresses.
\<close>

record Phi_x =
  phi_x_fc0 :: ref

record Phi_z =
  phi_z_fc0 :: ref

record Generator =
  gen_fc1 :: ref
  gen_fc2 :: ref
  gen_fc3 :: ref
  gen_f_phi_z :: Phi_z

record Prior =
  prior_fc1 :: ref
  prior_fc21 :: ref
  prior_fc22 :: ref

record Inference =
  inf_fc1 :: ref
  inf_fc21 :: ref
  inf_fc22 :: ref
  inf_f_phi_x :: Phi_x

record Recurrence =
  rec_rnncell :: ref
  rec_f_phi_x :: Phi_x
  rec_f_phi_z :: Phi_z
  rec_hidden_size :: nat

definition Phi_x_init :: "init \<Rightarrow> session \<Rightarrow> Phi_x \<times> session" where
  "Phi_x_init ini s =
     (let (fc0, s) = nn_Linear ini x_dim h_dim s
      in (\<lparr>phi_x_fc0 = fc0\<rparr>, s))"

definition Phi_z_init :: "init \<Rightarrow> session \<Rightarrow> Phi_z \<times> session" where
  "Phi_z_init ini s =
     (let (fc0, s) = nn_Linear ini z_dim h_dim s
      in (\<lparr>phi_z_fc0 = fc0\<rparr>, s))"

text \<open>
  The constructors of \<open>Generator\<close>, \<open>Inference\<close> and \<open>Recurrence\<close> read the globals
  \<open>f_phi_x\<close> and \<open>f_phi_z\<close>; they are arguments here.
\<close>

definition Generator_init :: "init \<Rightarrow> Phi_z \<Rightarrow> session \<Rightarrow> Generator \<times> session" where
  "Generator_init ini f_phi_z s =
     (let (fc1, s) = nn_Linear ini (h_dim + h_dim) h_dim s;
          (fc2, s) = nn_Linear ini h_dim h_dim s;
          (fc3, s) = nn_Linear ini h_dim x_dim s
      in (\<lparr>gen_fc1 = fc1, gen_fc2 = fc2, gen_fc3 = fc3, gen_f_phi_z = f_phi_z\<rparr>, s))"

definition Prior_init :: "init \<Rightarrow> session \<Rightarrow> Prior \<times> session" where
  "Prior_init ini s =
     (let (fc1, s) = nn_Linear ini h_dim h_dim s;
          (fc21, s) = nn_Linear ini h_dim z_dim s;
          (fc22, s) = nn_Linear ini h_dim z_dim s
      in (\<lparr>prior_fc1 = fc1, prior_fc21 = fc21, prior_fc22 = fc22\<rparr>, s))"

definition Inference_init :: "init \<Rightarrow> Phi_x \<Rightarrow> session \<Rightarrow> Inference \<times> session" where
  "Inference_init ini f_phi_x s =
     (let (fc1, s) = nn_Linear ini (h_dim + h_dim) h_dim s;
          (fc21, s) = nn_Linear ini h_dim z_dim s;
          (fc22, s) = nn_Linear ini h_dim z_dim s
      in (\<lparr>inf_fc1 = fc1, inf_fc21 = fc21, inf_fc22 = fc22, inf_f_phi_x = f_phi_x\<rparr>, s))"

definition Recurrence_init ::
  "init \<Rightarrow> Phi_x \<Rightarrow> Phi_z \<Rightarrow> session \<Rightarrow> Recurrence \<times> session" where
  "Recurrence_init ini f_phi_x f_phi_z s =
     (let (rnncell, s) = nn_GRUCell ini (h_dim * 2) h_dim s
      in (\<lparr>rec_rnncell = rnncell, rec_f_phi_x = f_phi_x, rec_f_phi_z = f_phi_z,
            rec_hidden_size = hidden_size (grucell_at (store s) rnncell)\<rparr>, s))"

text \<open>The module globals of the notebook, and the cells that bind them, in order.\<close>

record globals =
  f_phi_x :: Phi_x
  f_phi_z :: Phi_z
  prior :: Prior
  decoder :: Generator
  encoder :: Inference
  recurrence :: Recurrence

definition empty_session :: session where
  "empty_session =
     \<lparr>next_ref = 0,
      store = \<lparr>linear_at = (\<lambda>_. \<lparr>weight = [], bias = []\<rparr>),
               grucell_at = (\<lambda>_. \<lparr>input_size = 0, hidden_size = 0, weight_ih = [],
                                   weight_hh = [], bias_ih = [], bias_hh = []\<rparr>)\<rparr>\<rparr>"

definition notebook_init :: "init \<Rightarrow> globals \<times> params" where
  "notebook_init ini =
     (let s = empty_session;
          (phi_x, s) = Phi_x_init ini s;
          (phi_z, s) = Phi_z_init ini s;
          (p, s) = Prior_init ini s;
          (d, s) = Generator_init ini phi_z s;
          (e, s) = Inference_init ini phi_x s;
          (r, s) = Recurrence_init ini phi_x phi_z s
      in (\<lparr>f_phi_x = phi_x, f_phi_z = phi_z, prior = p, decoder = d, encoder = e,
            recurrence = r\<rparr>, store s))"

subsection \<open>The forward passes (cells 4 and 5)\<close>

record bernoulli_params =
  probs :: mat

record normal_params =
  loc :: mat
  scale :: mat

definition Phi_x_forward :: "params \<Rightarrow> Phi_x \<Rightarrow> mat \<Rightarrow> mat" where
  "Phi_x_forward \<theta> m x = map (map relu) (Linear_forward (linear_at \<theta> (phi_x_fc0 m)) x)"

definition Phi_z_forward :: "params \<Rightarrow> Phi_z \<Rightarrow> mat \<Rightarrow> mat" where
  "Phi_z_forward \<theta> m z = map (map relu) (Linear_forward (linear_at \<theta> (phi_z_fc0 m)) z)"

definition Generator_forward :: "params \<Rightarrow> Generator \<Rightarrow> mat \<Rightarrow> mat \<Rightarrow> bernoulli_params" where
  "Generator_forward \<theta> m z h_prev =
     (let h = cat_last (Phi_z_forward \<theta> (gen_f_phi_z m) z) h_prev;
          h = map (map relu) (Linear_forward (linear_at \<theta> (gen_fc1 m)) h);
          h = map (map relu) (Linear_forward (linear_at \<theta> (gen_fc2 m)) h)
      in \<lparr>probs = map (map sigmoid) (Linear_forward (linear_at \<theta> (gen_fc3 m)) h)\<rparr>)"

definition Prior_forward :: "params \<Rightarrow> Prior \<Rightarrow> mat \<Rightarrow> normal_params" where
  "Prior_forward \<theta> m h_prev =
     (let h = map (map relu) (Linear_forward (linear_at \<theta> (prior_fc1 m)) h_prev)
      in \<lparr>loc = Linear_forward (linear_at \<theta> (prior_fc21 m)) h,
          scale = map (map softplus) (Linear_forward (linear_at \<theta> (prior_fc22 m)) h)\<rparr>)"

definition Inference_forward :: "params \<Rightarrow> Inference \<Rightarrow> mat \<Rightarrow> mat \<Rightarrow> normal_params" where
  "Inference_forward \<theta> m x h_prev =
     (let h = cat_last (Phi_x_forward \<theta> (inf_f_phi_x m) x) h_prev;
          h = map (map relu) (Linear_forward (linear_at \<theta> (inf_fc1 m)) h)
      in \<lparr>loc = Linear_forward (linear_at \<theta> (inf_fc21 m)) h,
          scale = map (map softplus) (Linear_forward (linear_at \<theta> (inf_fc22 m)) h)\<rparr>)"

definition Recurrence_forward :: "params \<Rightarrow> Recurrence \<Rightarrow> mat \<Rightarrow> mat \<Rightarrow> mat \<Rightarrow> mat" where
  "Recurrence_forward \<theta> m x z h_prev =
     GRUCell_forward (grucell_at \<theta> (rec_rnncell m))
       (cat_last (Phi_z_forward \<theta> (rec_f_phi_z m) z) (Phi_x_forward \<theta> (rec_f_phi_x m) x))
       h_prev"

subsection \<open>The framework's side\<close>

text \<open>
  The state of a run: the parameter store, and everything else the framework keeps
  between calls (the random generator, the optimizer's moments).
\<close>

record 'g world =
  weights :: params
  fw_state :: 'g

text \<open>
  What the notebook takes from the framework without fixing it: drawing from a Normal
  and from a Bernoulli distribution, which advances the generator; the negative
  log-likelihood of a Bernoulli and the divergence between two Normals, one number per
  sample of the batch.
\<close>

record 'g framework =
  normal_sample :: "'g \<Rightarrow> normal_params \<Rightarrow> mat \<times> 'g"
  bernoulli_sample :: "'g \<Rightarrow> bernoulli_params \<Rightarrow> mat \<times> 'g"
  bernoulli_nll :: "bernoulli_params \<Rightarrow> mat \<Rightarrow> vec"
  normal_kl :: "normal_params \<Rightarrow> normal_params \<Rightarrow> vec"

text \<open>The dictionary of variables a composite distribution returns from \<open>sample\<close>.\<close>

record samples =
  s_x :: mat
  s_z :: mat
  s_h_prev :: mat
  s_h :: mat

text \<open>
  Modelled from the spec: the product \<open>encoder * recurrence\<close> of cell 6 is the
  framework's; its \<open>sample\<close> is not in the notebook. The spec calls it
  encoder-with-recurrence, posterior sampling plus state update: \<open>z\<close> is drawn from
  the Normal that \<open>Inference.forward\<close> parameterizes, \<open>h\<close> is what
  \<open>Recurrence.forward\<close> returns for it, and the inputs are passed through.
\<close>

definition encoder_with_recurrence_sample ::
  "'g framework \<Rightarrow> globals \<Rightarrow> 'g world \<Rightarrow> mat \<Rightarrow> mat \<Rightarrow> samples \<times> 'g world" where
  "encoder_with_recurrence_sample F G w x h_prev =
     (let (z, g) = normal_sample F (fw_state w) (Inference_forward (weights w) (encoder G) x h_prev);
          h = Recurrence_forward (weights w) (recurrence G) x z h_prev
      in (\<lparr>s_x = x, s_z = z, s_h_prev = h_prev, s_h = h\<rparr>, w\<lparr>fw_state := g\<rparr>))"

text \<open>
  Modelled from the spec: the product \<open>prior * decoder * recurrence\<close> of cell 6,
  generate-from-prior in the spec: prior sampling, decoding, and state update.
\<close>

definition generate_from_prior_sample ::
  "'g framework \<Rightarrow> globals \<Rightarrow> 'g world \<Rightarrow> mat \<Rightarrow> samples \<times> 'g world" where
  "generate_from_prior_sample F G w h_prev =
     (let (z, g) = normal_sample F (fw_state w) (Prior_forward (weights w) (prior G) h_prev);
          (x, g) = bernoulli_sample F g (Generator_forward (weights w) (decoder G) z h_prev);
          h = Recurrence_forward (weights w) (recurrence G) x z h_prev
      in (\<lparr>s_x = x, s_z = z, s_h_prev = h_prev, s_h = h\<rparr>, w\<lparr>fw_state := g\<rparr>))"

text \<open>
  Modelled from the spec: \<open>decoder.sample_mean\<close> is the framework's; the mean of the
  Bernoulli distribution that \<open>Generator.forward\<close> parameterizes is its \<open>probs\<close>.
\<close>

definition decoder_sample_mean :: "globals \<Rightarrow> 'g world \<Rightarrow> mat \<Rightarrow> mat \<Rightarrow> mat" where
  "decoder_sample_mean G w z h_prev = probs (Generator_forward (weights w) (decoder G) z h_prev)"

subsection \<open>The loss (cell 7)\<close>

datatype error = ZeroDivisionError | IndexError | RuntimeError

definition vrnn_step_fn ::
  "'g framework \<Rightarrow> globals \<Rightarrow> 'g world \<Rightarrow> nat \<Rightarrow> mat \<Rightarrow> mat \<Rightarrow> samples \<times> 'g world" where
  "vrnn_step_fn F G w t x h_prev = encoder_with_recurrence_sample F G w x h_prev"

text \<open>\<open>.mean()\<close> of a loss: the mean over the batch.\<close>

definition batch_mean :: "vec \<Rightarrow> real" where
  "batch_mean v = sum_list v / real (length v)"

text \<open>
  \<open>(NLL(decoder) + KullbackLeibler(encoder, prior)).mean()\<close>, evaluated on the
  variables of one step.
\<close>

definition step_loss :: "'g framework \<Rightarrow> globals \<Rightarrow> 'g world \<Rightarrow> samples \<Rightarrow> real" where
  "step_loss F G w s =
     batch_mean
       (map2 (+)
          (bernoulli_nll F (Generator_forward (weights w) (decoder G) (s_z s) (s_h_prev s)) (s_x s))
          (normal_kl F (Inference_forward (weights w) (encoder G) (s_x s) (s_h_prev s))
             (Prior_forward (weights w) (prior G) (s_h_prev s))))"

text \<open>
  Modelled from the spec: \<open>ARLoss\<close> is the framework's loop construct; the spec has the
  per-timestep loss auto-regressively summed across the fixed sequence length. With the
  arguments of cell 7: at step \<open>t\<close> of \<open>max_iter\<close> the series variable \<open>x\<close> is
  indexed at \<open>t\<close>, \<open>step_fn\<close> is called on it and on \<open>h_prev\<close>, the step loss of
  what it returns is added, and \<open>update_value\<close> makes its \<open>h\<close> the next \<open>h_prev\<close>.
\<close>

fun ARLoss_steps ::
  "('w \<Rightarrow> nat \<Rightarrow> mat \<Rightarrow> mat \<Rightarrow> samples \<times> 'w) \<Rightarrow> ('w \<Rightarrow> samples \<Rightarrow> real) \<Rightarrow> tensor3 \<Rightarrow>
   nat list \<Rightarrow> real \<times> mat \<times> 'w \<Rightarrow> error + real \<times> mat \<times> 'w" where
  "ARLoss_steps step_fn sl x [] st = Inr st"
| "ARLoss_steps step_fn sl x (t # ts) (acc, h_prev, w) =
     (if t < length x then
        (let (s, w') = step_fn w t (x ! t) h_prev
         in ARLoss_steps step_fn sl x ts (acc + sl w' s, s_h s, w'))
      else Inl IndexError)"

text \<open>The dictionary \<open>{'x': x, 'h_prev': h_prev}\<close> handed to a loss or a model.\<close>

record inputs =
  in_x :: tensor3
  in_h_prev :: mat

definition ARLoss ::
  "('w \<Rightarrow> samples \<Rightarrow> real) \<Rightarrow> ('w \<Rightarrow> nat \<Rightarrow> mat \<Rightarrow> mat \<Rightarrow> samples \<times> 'w) \<Rightarrow> nat \<Rightarrow>
   'w \<Rightarrow> inputs \<Rightarrow> error + real \<times> 'w" where
  "ARLoss sl step_fn max_iter w d =
     (case ARLoss_steps step_fn sl (in_x d) [0..<max_iter] (0, in_h_prev d, w) of
        Inl e \<Rightarrow> Inl e
      | Inr (acc, h_prev, w') \<Rightarrow> Inr (acc, w'))"

definition loss :: "'g framework \<Rightarrow> globals \<Rightarrow> 'g world \<Rightarrow> inputs \<Rightarrow> error + real \<times> 'g world" where
  "loss F G = ARLoss (step_loss F G) (vrnn_step_fn F G) t_max"

subsection \<open>The batch loop (cell 8)\<close>

text \<open>
  A \<open>Model\<close> is the framework's: \<open>train\<close> evaluates the loss and lets the optimizer
  update the parameters, \<open>test\<close> only evaluates it. Both return the loss as a number
  and leave the run in a new state.
\<close>

record 'w Model =
  train :: "'w \<Rightarrow> inputs \<Rightarrow> real \<times> 'w"
  test :: "'w \<Rightarrow> inputs \<Rightarrow> real \<times> 'w"

text \<open>
  One pass over a \<open>DataLoader\<close>: the size of its dataset and the batches the pass
  yields, each an image tensor with its labels.
\<close>

record loader =
  dataset_len :: nat
  batches :: "(tensor3 \<times> nat list) list"

text \<open>What the notebook writes: the two \<open>print\<close> lines and the writer's records.\<close>

datatype event =
    Print_train_loss nat real
  | Print_test_loss real
  | Add_scalar string real nat
  | Add_image string "tensor3 list" nat

text \<open>
  The body of the \<open>for\<close> loop of \<open>data_loop\<close>: the state it carries from one batch
  to the next is \<open>mean_loss\<close> and the state of the run.
\<close>

fun batch_loop ::
  "globals \<Rightarrow> 'w Model \<Rightarrow> bool \<Rightarrow> (tensor3 \<times> nat list) list \<Rightarrow> real \<times> 'w \<Rightarrow> real \<times> 'w" where
  "batch_loop G model train_mode [] (mean_loss, w) = (mean_loss, w)"
| "batch_loop G model train_mode ((data, labels) # rest) (mean_loss, w) =
     (let n = length data;
          x = transpose_0_1 data;
          h_prev = zeros n (rec_hidden_size (recurrence G));
          (l, w') = (if train_mode then train model w \<lparr>in_x = x, in_h_prev = h_prev\<rparr>
                     else test model w \<lparr>in_x = x, in_h_prev = h_prev\<rparr>)
      in batch_loop G model train_mode rest (mean_loss + l * real n, w'))"

text \<open>
  \<open>data_loop\<close>. The division raises on an empty dataset, after the loop has run; the
  state of the run and the output written so far outlive the exception.
\<close>

definition data_loop ::
  "globals \<Rightarrow> nat \<Rightarrow> loader \<Rightarrow> 'w Model \<Rightarrow> bool \<Rightarrow> 'w \<times> event list \<Rightarrow>
   (error + real) \<times> 'w \<times> event list" where
  "data_loop G epoch ld model train_mode st =
     (case st of (w, out) \<Rightarrow>
        (let (mean_loss, w') = batch_loop G model train_mode (batches ld) (0, w)
         in if dataset_len ld = 0 then (Inl ZeroDivisionError, w', out)
            else (let mean_loss = mean_loss / real (dataset_len ld)
                  in (Inr mean_loss, w',
                      out @ [if train_mode then Print_train_loss epoch mean_loss
                             else Print_test_loss mean_loss]))))"

subsection \<open>Generation (cell 9)\<close>

fun generation_loop ::
  "('w \<Rightarrow> mat \<Rightarrow> samples \<times> 'w) \<Rightarrow> ('w \<Rightarrow> mat \<Rightarrow> mat \<Rightarrow> mat) \<Rightarrow> nat list \<Rightarrow>
   tensor3 list \<times> mat \<times> 'w \<Rightarrow> tensor3 list \<times> mat \<times> 'w" where
  "generation_loop gen smean [] st = st"
| "generation_loop gen smean (step # steps) (x, h_prev, w) =
     (let (smp, w') = gen w h_prev;
          x_t = smean w' (s_z smp) (s_h_prev smp);
          h_prev' = s_h smp
      in generation_loop gen smean steps (x @ [[x_t]], h_prev', w'))"

text \<open>
  \<open>plot_image_from_latent\<close>; \<open>gen\<close> stands for \<open>generate_from_prior.sample\<close> and
  \<open>smean\<close> for \<open>decoder.sample_mean\<close>. Each \<open>x_t[None, :]\<close> is a tensor with one
  leading element, and \<open>torch.cat(x, dim=0)\<close> joins them along that axis.
\<close>

definition plot_image_from_latent ::
  "globals \<Rightarrow> ('w \<Rightarrow> mat \<Rightarrow> samples \<times> 'w) \<Rightarrow> ('w \<Rightarrow> mat \<Rightarrow> mat \<Rightarrow> mat) \<Rightarrow> nat \<Rightarrow> 'w \<Rightarrow>
   tensor3 \<times> 'w" where
  "plot_image_from_latent G gen smean n w =
     (let (x, h_prev, w') =
            generation_loop gen smean [0..<t_max]
              ([], zeros n (rec_hidden_size (recurrence G)), w)
      in (transpose_0_1 (concat x), w'))"

subsection \<open>The epoch loop (cell 10)\<close>

definition epoch_body ::
  "globals \<Rightarrow> 'w Model \<Rightarrow> ('w \<Rightarrow> mat \<Rightarrow> samples \<times> 'w) \<Rightarrow> ('w \<Rightarrow> mat \<Rightarrow> mat \<Rightarrow> mat) \<Rightarrow>
   loader \<Rightarrow> loader \<Rightarrow> nat \<Rightarrow> 'w \<times> event list \<Rightarrow> (error + unit) \<times> 'w \<times> event list" where
  "epoch_body G vrnn gen smean train_loader test_loader epoch st =
     (case data_loop G epoch train_loader vrnn True st of
        (Inl e, w, out) \<Rightarrow> (Inl e, w, out)
      | (Inr train_loss, w, out) \<Rightarrow>
          (case data_loop G epoch test_loader vrnn False (w, out) of
             (Inl e, w, out) \<Rightarrow> (Inl e, w, out)
           | (Inr test_loss, w, out) \<Rightarrow>
               (let out = out @ [Add_scalar ''train_loss'' train_loss epoch];
                    out = out @ [Add_scalar ''test_loss'' test_loss epoch];
                    (img, w) = plot_image_from_latent G gen smean batch_size w;
                    sample = map (\<lambda>m. [m]) img
                in (Inr (), w, out @ [Add_image ''Image_from_latent'' sample epoch]))))"

text \<open>
  \<open>for epoch in range(1, epochs + 1)\<close>; the loaders are shuffled, so each epoch has
  its own pass over them.
\<close>

fun epoch_loop ::
  "globals \<Rightarrow> 'w Model \<Rightarrow> ('w \<Rightarrow> mat \<Rightarrow> samples \<times> 'w) \<Rightarrow> ('w \<Rightarrow> mat \<Rightarrow> mat \<Rightarrow> mat) \<Rightarrow>
   (nat \<Rightarrow> loader) \<Rightarrow> (nat \<Rightarrow> loader) \<Rightarrow> nat list \<Rightarrow> 'w \<times> event list \<Rightarrow>
   (error + unit) \<times> 'w \<times> event list" where
  "epoch_loop G vrnn gen smean train_loader test_loader [] st = (Inr (), st)"
| "epoch_loop G vrnn gen smean train_loader test_loader (epoch # rest) st =
     (case epoch_body G vrnn gen smean (train_loader epoch) (test_loader epoch) epoch st of
        (Inl e, st') \<Rightarrow> (Inl e, st')
      | (Inr u, st') \<Rightarrow> epoch_loop G vrnn gen smean train_loader test_loader rest st')"

definition notebook_epochs ::
  "globals \<Rightarrow> 'w Model \<Rightarrow> ('w \<Rightarrow> mat \<Rightarrow> samples \<times> 'w) \<Rightarrow> ('w \<Rightarrow> mat \<Rightarrow> mat \<Rightarrow> mat) \<Rightarrow>
   (nat \<Rightarrow> loader) \<Rightarrow> (nat \<Rightarrow> loader) \<Rightarrow> 'w \<Rightarrow> (error + unit) \<times> 'w \<times> event list" where
  "notebook_epochs G vrnn gen smean train_loader test_loader w =
     epoch_loop G vrnn gen smean train_loader test_loader [1..<epochs + 1] (w, [])"

subsection \<open>The model object (cell 7)\<close>





subsection \<open>A forward pass as the library runs it\<close>

text \<open>
  The forward passes above are functions of the parameter store and the inputs. That a
  forward pass is such a function is a property of its body, not of Python: a call into
  the library runs in the state of the run, can read and advance the generator kept
  there, and raises when the shapes of its operands do not fit. In this subsection
  \<open>Recurrence.forward\<close> is written call by call as such a run: a function from the
  state of the run to an outcome, a value or an exception, and the state it leaves.
\<close>

type_synonym ('g, 'a) run = "'g world \<Rightarrow> (error + 'a) \<times> 'g world"

definition return_run :: "'a \<Rightarrow> ('g, 'a) run" where
  "return_run a = (\<lambda>w. (Inr a, w))"

definition raise_run :: "error \<Rightarrow> ('g, 'a) run" where
  "raise_run e = (\<lambda>w. (Inl e, w))"

text \<open>One call after another; an exception ends the evaluation of the expression.\<close>

definition bind_run :: "('g, 'a) run \<Rightarrow> ('a \<Rightarrow> ('g, 'b) run) \<Rightarrow> ('g, 'b) run" where
  "bind_run m f =
     (\<lambda>w. case m w of
            (Inl e, w') \<Rightarrow> (Inl e, w')
          | (Inr a, w') \<Rightarrow> f a w')"

text \<open>A layer reads its parameters at its address.\<close>

definition get_linear :: "ref \<Rightarrow> ('g, linear) run" where
  "get_linear r = (\<lambda>w. (Inr (linear_at (weights w) r), w))"

definition get_grucell :: "ref \<Rightarrow> ('g, grucell) run" where
  "get_grucell r = (\<lambda>w. (Inr (grucell_at (weights w) r), w))"

text \<open>
  A draw from a Normal distribution, as the framework's \<open>sample\<close> makes it for the
  encoder and the prior: the call that advances the generator.
\<close>

definition draw_normal :: "'g framework \<Rightarrow> normal_params \<Rightarrow> ('g, mat) run" where
  "draw_normal F p =
     (\<lambda>w. let (z, g) = normal_sample F (fw_state w) p in (Inr z, w\<lparr>fw_state := g\<rparr>))"

text \<open>\<open>torch.cat((a, b), dim=-1)\<close> raises unless the batch sizes agree.\<close>

definition torch_cat :: "mat \<Rightarrow> mat \<Rightarrow> ('g, mat) run" where
  "torch_cat a b =
     (if length a = length b then return_run (cat_last a b) else raise_run RuntimeError)"

definition F_relu :: "mat \<Rightarrow> ('g, mat) run" where
  "F_relu x = return_run (map (map relu) x)"

text \<open>
  Calling an \<open>nn.Linear\<close> raises unless every row of the input is as wide as the rows
  of the weight.
\<close>

definition nn_Linear_call :: "ref \<Rightarrow> mat \<Rightarrow> ('g, mat) run" where
  "nn_Linear_call r x =
     bind_run (get_linear r) (\<lambda>l.
       if list_all (\<lambda>v. list_all (\<lambda>u. length u = length v) (weight l)) x
       then return_run (Linear_forward l x)
       else raise_run RuntimeError)"

text \<open>
  Calling an \<open>nn.GRUCell\<close> raises unless input and hidden state have the same batch
  size and the widths the cell was built for.
\<close>

definition nn_GRUCell_call :: "ref \<Rightarrow> mat \<Rightarrow> mat \<Rightarrow> ('g, mat) run" where
  "nn_GRUCell_call r x h =
     bind_run (get_grucell r) (\<lambda>c.
       if length x = length h \<and> list_all (\<lambda>v. length v = input_size c) x \<and>
          list_all (\<lambda>v. length v = hidden_size c) h
       then return_run (GRUCell_forward c x h)
       else raise_run RuntimeError)"

definition Phi_x_call :: "Phi_x \<Rightarrow> mat \<Rightarrow> ('g, mat) run" where
  "Phi_x_call m x = bind_run (nn_Linear_call (phi_x_fc0 m) x) F_relu"

definition Phi_z_call :: "Phi_z \<Rightarrow> mat \<Rightarrow> ('g, mat) run" where
  "Phi_z_call m z = bind_run (nn_Linear_call (phi_z_fc0 m) z) F_relu"

text \<open>
  \<open>Recurrence.forward\<close>, in the order in which Python evaluates its expression:
  \<open>self.f_phi_z(z)\<close>, \<open>self.f_phi_x(x)\<close>, \<open>torch.cat\<close>, \<open>self.rnncell\<close>.
\<close>

definition Recurrence_call :: "Recurrence \<Rightarrow> mat \<Rightarrow> mat \<Rightarrow> mat \<Rightarrow> ('g, mat) run" where
  "Recurrence_call m x z h_prev =
     bind_run (Phi_z_call (rec_f_phi_z m) z) (\<lambda>fz.
     bind_run (Phi_x_call (rec_f_phi_x m) x) (\<lambda>fx.
     bind_run (torch_cat fz fx) (\<lambda>c.
     nn_GRUCell_call (rec_rnncell m) c h_prev)))"

subsection \<open>Float32 arithmetic\<close>

text \<open>
  The tensors of the notebook hold float32 numbers. For the bounds on what the
  activations return, the modules that end in an activation are embedded over float32 as
  well. A float32 value is a finite number, an infinity or NaN; the two zeros are one
  value here, and \<open>Finite a\<close> stands for a float32 number when \<open>a\<close> is one.

  An arithmetic operation returns the float32 number nearest to the exact result, ties
  going to the even significand, as IEEE 754 has it for binary32: 24 bits of
  significand, a spacing of at least \<open>2 powr -149\<close>, overflow to an infinity from
  \<open>2 ^ 128\<close> on. An elementary function of the library is taken to return the float32
  number nearest to its exact value. The library promises neither the last bit of an
  elementary function nor the order in which a dot product is accumulated. The statements
  below do not depend on either: the general ones use only that rounding keeps the sign
  and does not cross 1, and in the concrete ones every sum and product is exact and the
  value to be rounded lies well inside the interval that rounds to the result.
\<close>

datatype f32 = Finite real | PInf | NInf | NaN










text \<open>The activations: the float32 number nearest to the value of the real function.\<close>

fun relu_f32 :: "f32 \<Rightarrow> f32" where
  "relu_f32 (Finite a) = Finite (max 0 a)"
| "relu_f32 PInf = PInf"
| "relu_f32 NInf = Finite 0"
| "relu_f32 NaN = NaN"








subsection \<open>The forward passes in float32\<close>













subsection \<open>Observing the calls\<close>

text \<open>
  To state what a loop hands to the functions it is given, those functions are wrapped
  so that they also append each call to a log kept beside the state of the run.
\<close>

record call =
  call_train :: bool
  call_inputs :: inputs
  call_loss :: real

definition recording :: "'w Model \<Rightarrow> ('w \<times> call list) Model" where
  "recording M =
     \<lparr>train = (\<lambda>(w, cs) d. let (l, w') = train M w d
                in (l, (w', cs @ [\<lparr>call_train = True, call_inputs = d, call_loss = l\<rparr>]))),
      test = (\<lambda>(w, cs) d. let (l, w') = test M w d
                in (l, (w', cs @ [\<lparr>call_train = False, call_inputs = d, call_loss = l\<rparr>])))\<rparr>"

definition recording_gen ::
  "('w \<Rightarrow> mat \<Rightarrow> samples \<times> 'w) \<Rightarrow> 'w \<times> (mat \<times> samples) list \<Rightarrow> mat \<Rightarrow>
   samples \<times> 'w \<times> (mat \<times> samples) list" where
  "recording_gen gen = (\<lambda>(w, cs) h_prev. let (s, w') = gen w h_prev
                                           in (s, (w', cs @ [(h_prev, s)])))"

text \<open>A function that only reads the state of the run reads it beside the log.\<close>

definition beside_log :: "('w \<Rightarrow> 'a) \<Rightarrow> 'w \<times> 'c \<Rightarrow> 'a" where
  "beside_log f st = f (fst st)"

record step_call =
  step_t :: nat
  step_x :: mat
  step_h_prev :: mat
  step_out :: samples

definition recording_step ::
  "('w \<Rightarrow> nat \<Rightarrow> mat \<Rightarrow> mat \<Rightarrow> samples \<times> 'w) \<Rightarrow> 'w \<times> step_call list \<Rightarrow> nat \<Rightarrow> mat \<Rightarrow> mat \<Rightarrow>
   samples \<times> 'w \<times> step_call list" where
  "recording_step step_fn =
     (\<lambda>(w, cs) t x h_prev. let (s, w') = step_fn w t x h_prev
        in (s, (w', cs @ [\<lparr>step_t = t, step_x = x, step_h_prev = h_prev, step_out = s\<rparr>])))"

subsection \<open>Shapes\<close>

text \<open>A tensor of rank two has shape \<open>(b, n)\<close>: \<open>b\<close> rows of width \<open>n\<close>.\<close>

definition mat_shape :: "nat \<Rightarrow> nat \<Rightarrow> mat \<Rightarrow> bool" where
  "mat_shape b n m \<longleftrightarrow> length m = b \<and> list_all (\<lambda>r. length r = n) m"

text \<open>
  The shapes \<open>nn.Linear(n_in, n_out)\<close> and \<open>nn.GRUCell(n_in, n_hidden)\<close> give
  their parameters. The optimizer updates entries in place and keeps the shapes.
\<close>

definition linear_shape :: "nat \<Rightarrow> nat \<Rightarrow> linear \<Rightarrow> bool" where
  "linear_shape n_in n_out l \<longleftrightarrow> mat_shape n_out n_in (weight l) \<and> length (bias l) = n_out"

definition grucell_shape :: "nat \<Rightarrow> nat \<Rightarrow> grucell \<Rightarrow> bool" where
  "grucell_shape n_in n_hidden c \<longleftrightarrow>
     input_size c = n_in \<and> hidden_size c = n_hidden \<and>
     mat_shape (3 * n_hidden) n_in (weight_ih c) \<and>
     mat_shape (3 * n_hidden) n_hidden (weight_hh c) \<and>
     length (bias_ih c) = 3 * n_hidden \<and> length (bias_hh c) = 3 * n_hidden"

text \<open>Every layer the modules of \<open>G\<close> reach has the shape its constructor gave it.\<close>

definition well_shaped :: "globals \<Rightarrow> params \<Rightarrow> bool" where
  "well_shaped G \<theta> \<longleftrightarrow>
     linear_shape x_dim h_dim (linear_at \<theta> (phi_x_fc0 (inf_f_phi_x (encoder G)))) \<and>
     linear_shape x_dim h_dim (linear_at \<theta> (phi_x_fc0 (rec_f_phi_x (recurrence G)))) \<and>
     linear_shape z_dim h_dim (linear_at \<theta> (phi_z_fc0 (gen_f_phi_z (decoder G)))) \<and>
     linear_shape z_dim h_dim (linear_at \<theta> (phi_z_fc0 (rec_f_phi_z (recurrence G)))) \<and>
     linear_shape h_dim h_dim (linear_at \<theta> (prior_fc1 (prior G))) \<and>
     linear_shape h_dim z_dim (linear_at \<theta> (prior_fc21 (prior G))) \<and>
     linear_shape h_dim z_dim (linear_at \<theta> (prior_fc22 (prior G))) \<and>
     linear_shape (h_dim + h_dim) h_dim (linear_at \<theta> (gen_fc1 (decoder G))) \<and>
     linear_shape h_dim h_dim (linear_at \<theta> (gen_fc2 (decoder G))) \<and>
     linear_shape h_dim x_dim (linear_at \<theta> (gen_fc3 (decoder G))) \<and>
     linear_shape (h_dim + h_dim) h_dim (linear_at \<theta> (inf_fc1 (encoder G))) \<and>
     linear_shape h_dim z_dim (linear_at \<theta> (inf_fc21 (encoder G))) \<and>
     linear_shape h_dim z_dim (linear_at \<theta> (inf_fc22 (encoder G))) \<and>
     grucell_shape (h_dim * 2) h_dim (grucell_at \<theta> (rec_rnncell (recurrence G)))"

text \<open>A draw from a distribution has the shape of the distribution's parameters.\<close>

definition draws_keep_shape :: "'g framework \<Rightarrow> bool" where
  "draws_keep_shape F \<longleftrightarrow>
     (\<forall>g p. map length (fst (normal_sample F g p)) = map length (loc p)) \<and>
     (\<forall>g p. map length (fst (bernoulli_sample F g p)) = map length (probs p))"

subsection \<open>What the state of the run may depend on\<close>




subsection \<open>Example inputs\<close>

text \<open>
  Concrete inputs on which the statements below are instantiated: all initial entries
  zero, a framework whose draws are the means, a model with constant losses, and one
  pass of a loader over three images in two batches.
\<close>

definition zero_init :: init where
  "zero_init = (\<lambda>r k i j. 0)"

definition mean_framework :: "unit framework" where
  "mean_framework =
     \<lparr>normal_sample = (\<lambda>g p. (loc p, g)),
      bernoulli_sample = (\<lambda>g p. (probs p, g)),
      bernoulli_nll = (\<lambda>p x. map (\<lambda>r. 0) x),
      normal_kl = (\<lambda>p q. map (\<lambda>r. 0) (loc p))\<rparr>"

definition example_globals :: globals where
  "example_globals = fst (notebook_init zero_init)"

definition example_world :: "unit world" where
  "example_world = \<lparr>weights = snd (notebook_init zero_init), fw_state = ()\<rparr>"

definition constant_model :: "'w Model" where
  "constant_model = \<lparr>train = (\<lambda>w d. (2, w)), test = (\<lambda>w d. (3, w))\<rparr>"

definition example_loader :: loader where
  "example_loader =
     \<lparr>dataset_len = 3,
      batches = [(replicate 2 (zeros 28 28), [0, 1]), (replicate 1 (zeros 28 28), [7])]\<rparr>"

text \<open>
  The initial store with the layer at address 2, the prior's \<open>fc1\<close>, replaced.
\<close>

definition other_weights :: params where
  "other_weights =
     (snd (notebook_init zero_init))
       \<lparr>linear_at := (linear_at (snd (notebook_init zero_init)))
                       (2 := \<lparr>weight = [[1]], bias = [1]\<rparr>)\<rparr>"

text \<open>
  A framework with a generator: a counter that every draw advances and whose value the
  draw from a Normal adds to the mean; the likelihood and the divergence are sums over
  their arguments. A state of the run with this generator, on the initial store, and
  another one on the store with the prior's \<open>fc1\<close> replaced.
\<close>

definition counting_framework :: "nat framework" where
  "counting_framework =
     \<lparr>normal_sample = (\<lambda>g p. (map (map (\<lambda>v. v + real g)) (loc p), Suc g)),
      bernoulli_sample = (\<lambda>g p. (probs p, Suc g)),
      bernoulli_nll = (\<lambda>p x. map sum_list x),
      normal_kl = (\<lambda>p q. map sum_list (loc p))\<rparr>"

definition counting_world :: "nat world" where
  "counting_world = \<lparr>weights = snd (notebook_init zero_init), fw_state = 0\<rparr>"

definition other_world :: "nat world" where
  "other_world = \<lparr>weights = other_weights, fw_state = 7\<rparr>"







section \<open>Properties\<close>

subsection \<open>The batch loop under observation\<close>

text \<open>
  Recording changes neither the running sum nor the state of the run. The log grows by
  one call per batch, in the mode of the loop, on inputs built from that batch alone, and
  the running sum is the sum of the recorded losses times the batch sizes.
\<close>

lemma recording_train:
  "train (recording M) (w, cs) d =
     (fst (train M w d), snd (train M w d),
      cs @ [\<lparr>call_train = True, call_inputs = d, call_loss = fst (train M w d)\<rparr>])"
  by (simp add: recording_def split: prod.splits)

lemma recording_test:
  "test (recording M) (w, cs) d =
     (fst (test M w d), snd (test M w d),
      cs @ [\<lparr>call_train = False, call_inputs = d, call_loss = fst (test M w d)\<rparr>])"
  by (simp add: recording_def split: prod.splits)

lemma batch_loop_recording_step:
  "batch_loop G (recording M) mode ((d, ls) # bs) (acc, w, cs) =
     (let inp = \<lparr>in_x = transpose_0_1 d,
                 in_h_prev = zeros (length d) (rec_hidden_size (recurrence G))\<rparr>;
          r = (if mode then train M w inp else test M w inp)
      in batch_loop G (recording M) mode bs
           (acc + fst r * real (length d), snd r,
            cs @ [\<lparr>call_train = mode, call_inputs = inp, call_loss = fst r\<rparr>]))"
  by (cases mode) (simp_all add: recording_train recording_test Let_def split: prod.splits)

lemma batch_loop_recording_state:
  "fst (batch_loop G (recording M) mode bs (acc, w, cs)) = fst (batch_loop G M mode bs (acc, w)) \<and>
   fst (snd (batch_loop G (recording M) mode bs (acc, w, cs))) = snd (batch_loop G M mode bs (acc, w))"
proof (induction bs arbitrary: acc w cs)
  case Nil
  show ?case by simp
next
  case (Cons b bs)
  obtain d ls where b: "b = (d, ls)" by (cases b)
  show ?case
    using Cons.IH by (cases mode) (simp_all add: b recording_train recording_test Let_def split: prod.splits)
qed

lemma batch_loop_recording_prefix:
  "snd (snd (batch_loop G (recording M) mode bs (acc, w, cs))) =
     cs @ snd (snd (batch_loop G (recording M) mode bs (acc, w, [])))"
proof (induction bs arbitrary: acc w cs)
  case Nil
  show ?case by simp
next
  case (Cons b bs)
  obtain d ls where b: "b = (d, ls)" by (cases b)
  define inp where "inp = \<lparr>in_x = transpose_0_1 d,
    in_h_prev = zeros (length d) (rec_hidden_size (recurrence G))\<rparr>"
  define r where "r = (if mode then train M w inp else test M w inp)"
  define c where "c = \<lparr>call_train = mode, call_inputs = inp, call_loss = fst r\<rparr>"
  define acc' where "acc' = acc + fst r * real (length d)"
  have step: "batch_loop G (recording M) mode (b # bs) (acc, w, cs0) =
      batch_loop G (recording M) mode bs (acc', snd r, cs0 @ [c])" for cs0
    unfolding b batch_loop_recording_step by (simp add: Let_def inp_def r_def c_def acc'_def)
  have "snd (snd (batch_loop G (recording M) mode (b # bs) (acc, w, cs0))) =
      (cs0 @ [c]) @ snd (snd (batch_loop G (recording M) mode bs (acc', snd r, [])))" for cs0
    unfolding step by (rule Cons.IH)
  then show ?case by simp
qed

lemma batch_loop_recording_inputs:
  "map call_inputs (snd (snd (batch_loop G (recording M) mode bs (acc, w, cs)))) =
     map call_inputs cs @
     map (\<lambda>(d, _). \<lparr>in_x = transpose_0_1 d,
                     in_h_prev = zeros (length d) (rec_hidden_size (recurrence G))\<rparr>) bs"
proof (induction bs arbitrary: acc w cs)
  case Nil
  show ?case by simp
next
  case (Cons b bs)
  obtain d ls where b: "b = (d, ls)" by (cases b)
  show ?case
    using Cons.IH by (cases mode) (simp_all add: b recording_train recording_test Let_def split: prod.splits)
qed

lemma batch_loop_recording_mode:
  "map call_train (snd (snd (batch_loop G (recording M) mode bs (acc, w, cs)))) =
     map call_train cs @ replicate (length bs) mode"
proof (induction bs arbitrary: acc w cs)
  case Nil
  show ?case by simp
next
  case (Cons b bs)
  obtain d ls where b: "b = (d, ls)" by (cases b)
  show ?case
    using Cons.IH by (cases mode) (simp_all add: b recording_train recording_test Let_def replicate_append_same split: prod.splits)
qed

lemma batch_loop_recording_sum:
  "fst (batch_loop G (recording M) mode bs (acc, w, cs)) =
     foldl (\<lambda>a (l, n). a + l * real n) acc
       (zip (map call_loss
               (drop (length cs) (snd (snd (batch_loop G (recording M) mode bs (acc, w, cs))))))
            (map (\<lambda>(d, _). length d) bs))"
proof (induction bs arbitrary: acc w cs)
  case Nil
  show ?case by simp
next
  case (Cons b bs)
  obtain d ls where b: "b = (d, ls)" by (cases b)
  define inp where "inp = \<lparr>in_x = transpose_0_1 d,
    in_h_prev = zeros (length d) (rec_hidden_size (recurrence G))\<rparr>"
  define r where "r = (if mode then train M w inp else test M w inp)"
  define c where "c = \<lparr>call_train = mode, call_inputs = inp, call_loss = fst r\<rparr>"
  define acc' where "acc' = acc + fst r * real (length d)"
  have step: "batch_loop G (recording M) mode (b # bs) (acc, w, cs) =
      batch_loop G (recording M) mode bs (acc', snd r, cs @ [c])"
    unfolding b batch_loop_recording_step by (simp add: Let_def inp_def r_def c_def acc'_def)
  have pre: "snd (snd (batch_loop G (recording M) mode bs (acc', snd r, cs @ [c]))) =
      (cs @ [c]) @ snd (snd (batch_loop G (recording M) mode bs (acc', snd r, [])))"
    by (rule batch_loop_recording_prefix)
  have "fst (batch_loop G (recording M) mode bs (acc', snd r, cs @ [c])) =
      foldl (\<lambda>a (l, n). a + l * real n) acc'
        (zip (map call_loss (snd (snd (batch_loop G (recording M) mode bs (acc', snd r, [])))))
             (map (\<lambda>(d, _). length d) bs))"
    using Cons.IH [of acc' "snd r" "cs @ [c]"] by (simp add: pre)
  then show ?case
    unfolding step pre by (simp add: b c_def acc'_def)
qed


subsection \<open>Shapes through the modules\<close>

text \<open>
  Each operation maps operands of fitting shapes to a result of the expected shape, so
  the forward passes keep the batch size and produce the widths the constructors fix.
\<close>

lemma length_transpose_0_1: "length (transpose_0_1 (m # ms)) = length m"
  by (simp add: transpose_0_1_def)

lemma nth_transpose_0_1:
  "j < length m \<Longrightarrow> transpose_0_1 (m # ms) ! j = map (\<lambda>u. u ! j) (m # ms)"
  by (simp add: transpose_0_1_def del: upt_Suc)

lemma mat_shape_map_map: "mat_shape b n (map (map f) m) = mat_shape b n m"
  by (simp add: mat_shape_def list_all_iff)

lemma length_affine: "length (affine W b v) = min (length W) (length b)"
  by (simp add: affine_def)

lemma mat_shape_Linear_forward:
  "linear_shape n_in n_out l \<Longrightarrow> length x = b \<Longrightarrow> mat_shape b n_out (Linear_forward l x)"
  by (simp add: linear_shape_def mat_shape_def Linear_forward_def list_all_iff length_affine)

lemma length_gru_row:
  "grucell_shape n_in n c \<Longrightarrow> length h = n \<Longrightarrow> length (gru_row c v h) = n"
  by (simp add: grucell_shape_def mat_shape_def gru_row_def Let_def length_affine)

lemma mat_shape_GRUCell_forward:
  "grucell_shape n_in n c \<Longrightarrow> length x = b \<Longrightarrow> mat_shape b n h \<Longrightarrow> mat_shape b n (GRUCell_forward c x h)"
  by (simp add: mat_shape_def GRUCell_forward_def list_all_length length_gru_row)

lemma mat_shape_zeros: "mat_shape b n (zeros b n)"
  by (simp add: mat_shape_def zeros_def list_all_iff)

lemma mat_shape_same: "map length a = map length m \<Longrightarrow> mat_shape b n a = mat_shape b n m"
proof -
  assume a: "map length a = map length m"
  have "length a = length m" using a by (metis length_map)
  moreover have "list_all (\<lambda>r. length r = n) a = list_all (\<lambda>r. length r = n) m"
  proof -
    have "list_all (\<lambda>k. k = n) (map length a) = list_all (\<lambda>k. k = n) (map length m)"
      by (simp only: a)
    then show ?thesis by (simp add: list_all_iff)
  qed
  ultimately show ?thesis by (simp add: mat_shape_def)
qed

lemma mat_shape_length: "mat_shape b n m \<Longrightarrow> length m = b"
  by (simp add: mat_shape_def)

lemma length_Linear_forward: "length (Linear_forward l x) = length x"
  by (simp add: Linear_forward_def)

lemma length_Phi_x_forward: "length (Phi_x_forward \<theta> m x) = length x"
  by (simp add: Phi_x_forward_def length_Linear_forward)

lemma length_Phi_z_forward: "length (Phi_z_forward \<theta> m z) = length z"
  by (simp add: Phi_z_forward_def length_Linear_forward)

lemma length_cat_last: "length (cat_last a b) = min (length a) (length b)"
  by (simp add: cat_last_def)

lemma mat_shape_Generator_forward:
  assumes "well_shaped G \<theta>" and "length z = b" and "length h_prev = b"
  shows "mat_shape b x_dim (probs (Generator_forward \<theta> (decoder G) z h_prev))"
proof -
  have l: "linear_shape h_dim x_dim (linear_at \<theta> (gen_fc3 (decoder G)))"
    using assms(1) by (simp add: well_shaped_def)
  show ?thesis
    unfolding Generator_forward_def Let_def bernoulli_params.simps mat_shape_map_map
    by (rule mat_shape_Linear_forward[OF l])
      (simp add: length_Linear_forward length_cat_last length_Phi_z_forward assms(2,3))
qed

lemma mat_shape_Prior_forward:
  assumes "well_shaped G \<theta>" and "length h_prev = b"
  shows "mat_shape b z_dim (loc (Prior_forward \<theta> (prior G) h_prev))"
proof -
  have l: "linear_shape h_dim z_dim (linear_at \<theta> (prior_fc21 (prior G)))"
    using assms(1) by (simp add: well_shaped_def)
  show ?thesis
    unfolding Prior_forward_def Let_def normal_params.simps
    by (rule mat_shape_Linear_forward[OF l]) (simp add: length_Linear_forward assms(2))
qed

lemma mat_shape_Recurrence_forward:
  assumes "well_shaped G \<theta>" and "length x = b" and "length z = b" and "mat_shape b h_dim h_prev"
  shows "mat_shape b h_dim (Recurrence_forward \<theta> (recurrence G) x z h_prev)"
proof -
  have c: "grucell_shape (h_dim * 2) h_dim (grucell_at \<theta> (rec_rnncell (recurrence G)))"
    using assms(1) by (simp add: well_shaped_def)
  have len: "length (cat_last (Phi_z_forward \<theta> (rec_f_phi_z (recurrence G)) z)
      (Phi_x_forward \<theta> (rec_f_phi_x (recurrence G)) x)) = b"
    by (simp add: length_cat_last length_Phi_z_forward length_Phi_x_forward assms(2,3))
  show ?thesis
    unfolding Recurrence_forward_def by (rule mat_shape_GRUCell_forward[OF c len assms(4)])
qed

lemma draws_keep_shape_normal:
  "draws_keep_shape F \<Longrightarrow> normal_sample F g p = (z, g') \<Longrightarrow> map length z = map length (loc p)"
proof -
  assume F: "draws_keep_shape F" and z: "normal_sample F g p = (z, g')"
  have "map length (fst (normal_sample F g p)) = map length (loc p)"
    using F by (simp add: draws_keep_shape_def)
  then show ?thesis by (simp add: z)
qed

lemma draws_keep_shape_bernoulli:
  "draws_keep_shape F \<Longrightarrow> bernoulli_sample F g p = (x, g') \<Longrightarrow> map length x = map length (probs p)"
proof -
  assume F: "draws_keep_shape F" and x: "bernoulli_sample F g p = (x, g')"
  have "map length (fst (bernoulli_sample F g p)) = map length (probs p)"
    using F by (simp add: draws_keep_shape_def)
  then show ?thesis by (simp add: x)
qed

lemma generate_from_prior_sample_shapes:
  assumes F: "draws_keep_shape F" and ws: "well_shaped G (weights w)"
    and h: "mat_shape b h_dim h_prev"
    and g: "generate_from_prior_sample F G w h_prev = (s, w')"
  shows "weights w' = weights w \<and> s_h_prev s = h_prev \<and> mat_shape b z_dim (s_z s) \<and>
         mat_shape b h_dim (s_h s)"
proof -
  obtain z g1 where z: "normal_sample F (fw_state w) (Prior_forward (weights w) (prior G) h_prev) = (z, g1)"
    by (cases "normal_sample F (fw_state w) (Prior_forward (weights w) (prior G) h_prev)")
  obtain x g2 where x: "bernoulli_sample F g1 (Generator_forward (weights w) (decoder G) z h_prev) = (x, g2)"
    by (cases "bernoulli_sample F g1 (Generator_forward (weights w) (decoder G) z h_prev)")
  have hb: "length h_prev = b" using h by (rule mat_shape_length)
  have zs: "mat_shape b z_dim z"
    unfolding mat_shape_same[OF draws_keep_shape_normal[OF F z]]
    by (rule mat_shape_Prior_forward[OF ws hb])
  have zb: "length z = b" using zs by (rule mat_shape_length)
  have xs: "mat_shape b x_dim x"
    unfolding mat_shape_same[OF draws_keep_shape_bernoulli[OF F x]]
    by (rule mat_shape_Generator_forward[OF ws zb hb])
  have xb: "length x = b" using xs by (rule mat_shape_length)
  have s: "s = \<lparr>s_x = x, s_z = z, s_h_prev = h_prev,
      s_h = Recurrence_forward (weights w) (recurrence G) x z h_prev\<rparr>" and w': "w' = w\<lparr>fw_state := g2\<rparr>"
    using g by (simp_all add: generate_from_prior_sample_def z x)
  show ?thesis
    using mat_shape_Recurrence_forward[OF ws xb zb h]
    by (simp add: s w' zs)
qed

lemma notebook_init_well_shaped:
  "well_shaped (fst (notebook_init ini)) (snd (notebook_init ini))"
  by (simp add: well_shaped_def linear_shape_def grucell_shape_def mat_shape_def table_def
      column_def notebook_init_def empty_session_def Phi_x_init_def Phi_z_init_def Prior_init_def
      Generator_init_def Inference_init_def Recurrence_init_def nn_Linear_def nn_GRUCell_def
      Let_def list_all_iff)

subsection \<open>The generation loop under observation\<close>

text \<open>
  The log of the generation loop has one entry per step, each holding the \<open>h_prev\<close>
  the composite was called on and what it returned; the \<open>h_prev\<close> of an entry is the
  \<open>h\<close> of the entry before it.
\<close>

lemma recording_gen_apply:
  "recording_gen gen (w, cs) h = (fst (gen w h), snd (gen w h), cs @ [(h, fst (gen w h))])"
  by (simp add: recording_gen_def split: prod.splits)

lemma generation_loop_step:
  "generation_loop gen smean (t # ts) (x, h, w) =
     generation_loop gen smean ts
       (x @ [[smean (snd (gen w h)) (s_z (fst (gen w h))) (s_h_prev (fst (gen w h)))]],
        s_h (fst (gen w h)), snd (gen w h))"
  by (simp add: Let_def split: prod.splits)

lemma generation_loop_recording_step:
  "generation_loop (recording_gen gen) (beside_log smean) (t # ts) (x, h, w, cs) =
     generation_loop (recording_gen gen) (beside_log smean) ts
       (x @ [[smean (snd (gen w h)) (s_z (fst (gen w h))) (s_h_prev (fst (gen w h)))]],
        s_h (fst (gen w h)), snd (gen w h), cs @ [(h, fst (gen w h))])"
  unfolding generation_loop_step by (simp add: recording_gen_apply beside_log_def)

lemma generation_loop_recording_state:
  "fst (generation_loop (recording_gen gen) (beside_log smean) ts (x, h, w, cs)) =
     fst (generation_loop gen smean ts (x, h, w)) \<and>
   fst (snd (generation_loop (recording_gen gen) (beside_log smean) ts (x, h, w, cs))) =
     fst (snd (generation_loop gen smean ts (x, h, w))) \<and>
   fst (snd (snd (generation_loop (recording_gen gen) (beside_log smean) ts (x, h, w, cs)))) =
     snd (snd (generation_loop gen smean ts (x, h, w)))"
proof (induction ts arbitrary: x h w cs)
  case Nil
  show ?case by simp
next
  case (Cons t ts)
  show ?case
    unfolding generation_loop_recording_step
    unfolding generation_loop_step
    by (rule Cons.IH)
qed

lemma generation_loop_recording_prefix:
  "snd (snd (snd (generation_loop (recording_gen gen) (beside_log smean) ts (x, h, w, cs)))) =
     cs @ snd (snd (snd (generation_loop (recording_gen gen) (beside_log smean) ts (x, h, w, []))))"
proof (induction ts arbitrary: x h w cs)
  case Nil
  show ?case by simp
next
  case (Cons t ts)
  have "snd (snd (snd (generation_loop (recording_gen gen) (beside_log smean) (t # ts) (x, h, w, cs0)))) =
      (cs0 @ [(h, fst (gen w h))]) @
      snd (snd (snd (generation_loop (recording_gen gen) (beside_log smean) ts
        (x @ [[smean (snd (gen w h)) (s_z (fst (gen w h))) (s_h_prev (fst (gen w h)))]],
         s_h (fst (gen w h)), snd (gen w h), []))))" for cs0
    unfolding generation_loop_recording_step by (rule Cons.IH)
  then show ?case by (simp del: generation_loop.simps)
qed

lemma generation_loop_recording_cons:
  "snd (snd (snd (generation_loop (recording_gen gen) (beside_log smean) (t # ts) (x, h, w, [])))) =
     (h, fst (gen w h)) #
     snd (snd (snd (generation_loop (recording_gen gen) (beside_log smean) ts
        (x @ [[smean (snd (gen w h)) (s_z (fst (gen w h))) (s_h_prev (fst (gen w h)))]],
         s_h (fst (gen w h)), snd (gen w h), []))))"
  unfolding generation_loop_recording_step
  by (subst generation_loop_recording_prefix) simp

lemma generation_loop_recording_length:
  "length (snd (snd (snd (generation_loop (recording_gen gen) (beside_log smean) ts (x, h, w, []))))) =
     length ts"
proof (induction ts arbitrary: x h w)
  case Nil
  show ?case by simp
next
  case (Cons t ts)
  show ?case
    unfolding generation_loop_recording_cons by (simp add: Cons.IH)
qed

lemma generation_loop_recording_chain:
  "map fst (snd (snd (snd (generation_loop (recording_gen gen) (beside_log smean) ts (x, h, w, []))))) =
     take (length ts)
       (h # map (\<lambda>c. s_h (snd c))
          (snd (snd (snd (generation_loop (recording_gen gen) (beside_log smean) ts (x, h, w, []))))))"
proof (induction ts arbitrary: x h w)
  case Nil
  show ?case by simp
next
  case (Cons t ts)
  show ?case
    unfolding generation_loop_recording_cons using Cons.IH by simp
qed

lemma generation_loop_recording_nolog:
  "fst (generation_loop (recording_gen gen) (beside_log smean) ts (x, h, w, cs)) =
     fst (generation_loop (recording_gen gen) (beside_log smean) ts (x, h, w, [])) \<and>
   fst (snd (snd (generation_loop (recording_gen gen) (beside_log smean) ts (x, h, w, cs)))) =
     fst (snd (snd (generation_loop (recording_gen gen) (beside_log smean) ts (x, h, w, []))))"
  by (simp add: generation_loop_recording_state)

lemma generation_loop_from_prior:
  assumes F: "draws_keep_shape F" and ws: "well_shaped G \<theta>"
  shows "weights w = \<theta> \<Longrightarrow> mat_shape b h_dim h \<Longrightarrow>
     weights (fst (snd (snd (generation_loop (recording_gen (generate_from_prior_sample F G))
        (beside_log (decoder_sample_mean G)) ts (x, h, w, []))))) = \<theta> \<and>
     list_all (\<lambda>c. s_h_prev (snd c) = fst c \<and> mat_shape b z_dim (s_z (snd c)) \<and>
                    mat_shape b h_dim (fst c))
       (snd (snd (snd (generation_loop (recording_gen (generate_from_prior_sample F G))
        (beside_log (decoder_sample_mean G)) ts (x, h, w, []))))) \<and>
     fst (generation_loop (recording_gen (generate_from_prior_sample F G))
        (beside_log (decoder_sample_mean G)) ts (x, h, w, [])) =
     x @ map (\<lambda>c. [probs (Generator_forward \<theta> (decoder G) (s_z (snd c)) (s_h_prev (snd c)))])
          (snd (snd (snd (generation_loop (recording_gen (generate_from_prior_sample F G))
        (beside_log (decoder_sample_mean G)) ts (x, h, w, [])))))"
proof (induction ts arbitrary: x h w)
  case Nil
  then show ?case by simp
next
  case (Cons t ts)
  let ?gen = "generate_from_prior_sample F G"
  let ?run = "\<lambda>ts x h w cs. generation_loop (recording_gen ?gen)
        (beside_log (decoder_sample_mean G)) ts (x, h, w, cs)"
  obtain s w1 where g: "?gen w h = (s, w1)" by (cases "?gen w h")
  have ws': "well_shaped G (weights w)" using ws Cons.prems(1) by simp
  have sh: "weights w1 = weights w \<and> s_h_prev s = h \<and> mat_shape b z_dim (s_z s) \<and>
      mat_shape b h_dim (s_h s)"
    by (rule generate_from_prior_sample_shapes[OF F ws' Cons.prems(2) g])
  have w1: "weights w1 = \<theta>" using sh Cons.prems(1) by simp
  define x' where "x' = x @ [[probs (Generator_forward \<theta> (decoder G) (s_z s) (s_h_prev s))]]"
  have step: "?run (t # ts) x h w [] = ?run ts x' (s_h s) w1 [(h, s)]"
    unfolding generation_loop_recording_step
    by (simp add: g decoder_sample_mean_def w1 x'_def)
  have L: "snd (snd (snd (?run ts x' (s_h s) w1 [(h, s)]))) =
      [(h, s)] @ snd (snd (snd (?run ts x' (s_h s) w1 [])))"
    by (rule generation_loop_recording_prefix)
  have A: "fst (?run ts x' (s_h s) w1 [(h, s)]) = fst (?run ts x' (s_h s) w1 []) \<and>
      fst (snd (snd (?run ts x' (s_h s) w1 [(h, s)]))) = fst (snd (snd (?run ts x' (s_h s) w1 [])))"
    by (rule generation_loop_recording_nolog)
  have shs: "mat_shape b h_dim (s_h s)" using sh by simp
  note IH = Cons.IH[OF w1 shs, of x']
  show ?case
    unfolding step L using IH A sh Cons.prems(2) by (simp add: x'_def)
qed

lemma notebook_hidden_size: "rec_hidden_size (recurrence (fst (notebook_init ini))) = h_dim"
  by (simp add: notebook_init_def empty_session_def Phi_x_init_def Phi_z_init_def Prior_init_def
      Generator_init_def Inference_init_def Recurrence_init_def nn_Linear_def nn_GRUCell_def
      Let_def)

lemma plot_image_from_latent_unfold:
  "plot_image_from_latent G gen smean n w =
     (transpose_0_1 (concat (fst (generation_loop gen smean [0..<t_max]
          ([], zeros n (rec_hidden_size (recurrence G)), w)))),
      snd (snd (generation_loop gen smean [0..<t_max]
          ([], zeros n (rec_hidden_size (recurrence G)), w))))"
  by (simp add: plot_image_from_latent_def split: prod.splits)

lemma transpose_0_1_rows:
  assumes "xs \<noteq> []" and "list_all (mat_shape b n) xs"
  shows "length (transpose_0_1 xs) = b \<and>
         (\<forall>i<b. transpose_0_1 xs ! i = map (\<lambda>u. u ! i) xs)"
proof -
  obtain m ms where xs: "xs = m # ms" using assms(1) by (cases xs) auto
  have m: "length m = b" using assms(2) by (simp add: xs mat_shape_def)
  show ?thesis
    unfolding xs using m by (simp add: length_transpose_0_1 nth_transpose_0_1 del: list.map)
qed

lemma plot_image_from_latent_run:
  fixes F :: "'g framework" and w :: "'g world"
  assumes G: "G = fst (notebook_init ini)"
    and F: "draws_keep_shape F" and ws: "well_shaped G (weights w)"
    and run: "plot_image_from_latent G (recording_gen (generate_from_prior_sample F G))
                (beside_log (decoder_sample_mean G)) b (w, []) = (img, w', calls)"
  shows "length calls = 28 \<and>
         map fst calls = take 28 (zeros b 100 # map (\<lambda>c. s_h (snd c)) calls) \<and>
         length img = b \<and>
         (\<forall>i<b. length (img ! i) = 28 \<and>
            (\<forall>t<28. length (img ! i ! t) = 28 \<and>
               img ! i ! t =
                 probs (Generator_forward (weights w) (decoder G)
                          (s_z (snd (calls ! t))) (s_h_prev (snd (calls ! t)))) ! i)) \<and>
         plot_image_from_latent G (generate_from_prior_sample F G) (decoder_sample_mean G) b w =
           (img, w')"
proof -
  let ?gen = "generate_from_prior_sample F G"
  let ?X = "\<lambda>c. probs (Generator_forward (weights w) (decoder G) (s_z (snd c)) (s_h_prev (snd c)))"
  define h0 where "h0 = zeros b (rec_hidden_size (recurrence G))"
  define r where "r = generation_loop (recording_gen ?gen) (beside_log (decoder_sample_mean G))
      [0..<t_max] ([], h0, w, [])"
  have hs: "rec_hidden_size (recurrence G) = h_dim" unfolding G by (rule notebook_hidden_size)
  have h0: "mat_shape b h_dim h0" unfolding h0_def hs by (rule mat_shape_zeros)
  have img: "img = transpose_0_1 (concat (fst r))" and w': "w' = fst (snd (snd r))"
    and calls: "calls = snd (snd (snd r))"
    using run unfolding plot_image_from_latent_unfold r_def h0_def by (simp_all add: prod_eq_iff)
  have len: "length calls = t_max"
    unfolding calls r_def by (simp add: generation_loop_recording_length)
  have chain: "map fst calls = take t_max (h0 # map (\<lambda>c. s_h (snd c)) calls)"
    unfolding calls r_def using generation_loop_recording_chain[of ?gen _ "[0..<t_max]"] by simp
  have inv: "list_all (\<lambda>c. s_h_prev (snd c) = fst c \<and> mat_shape b z_dim (s_z (snd c)) \<and>
        mat_shape b h_dim (fst c)) calls \<and>
      fst r = [] @ map (\<lambda>c. [?X c]) calls"
    unfolding calls r_def using generation_loop_from_prior[OF F ws refl h0, of "[0..<t_max]" "[]"]
    by simp
  have xs: "concat (fst r) = map ?X calls"
    using inv by (simp add: concat_map_singleton)
  have shapes: "list_all (mat_shape b x_dim) (map ?X calls)"
  proof -
    have "mat_shape b x_dim (?X c)" if "c \<in> set calls" for c
    proof -
      have c: "s_h_prev (snd c) = fst c \<and> mat_shape b z_dim (s_z (snd c)) \<and> mat_shape b h_dim (fst c)"
        using inv that by (simp add: list_all_iff)
      have "length (s_z (snd c)) = b" and "length (s_h_prev (snd c)) = b"
        using c by (simp_all add: mat_shape_def)
      then show ?thesis by (rule mat_shape_Generator_forward[OF ws])
    qed
    then show ?thesis by (simp add: list_all_iff)
  qed
  have ne: "map ?X calls \<noteq> []" using len by (auto simp: t_max_def x_dim_def)
  note tr = transpose_0_1_rows[OF ne shapes]
  have plain: "plot_image_from_latent G ?gen (decoder_sample_mean G) b w = (img, w')"
    unfolding plot_image_from_latent_unfold img w' r_def h0_def
    by (simp add: generation_loop_recording_state)
  have rows: "length (img ! i) = 28 \<and>
      (\<forall>t<28. length (img ! i ! t) = 28 \<and> img ! i ! t = ?X (calls ! t) ! i)" if "i < b" for i
  proof -
    have row: "img ! i = map (\<lambda>u. u ! i) (map ?X calls)"
      unfolding img xs using tr that by simp
    have "length (?X (calls ! t) ! i) = 28" if "t < 28" for t
    proof -
      have "mat_shape b x_dim (?X (calls ! t))"
        using shapes that len by (simp add: list_all_length t_max_def x_dim_def)
      then show ?thesis using \<open>i < b\<close> by (simp add: mat_shape_def list_all_length x_dim_def)
    qed
    then show ?thesis
      unfolding row using len by (simp add: t_max_def x_dim_def)
  qed
  show ?thesis
    using len chain tr rows plain
    by (simp add: img xs t_max_def x_dim_def h0_def hs h_dim_def)
qed

subsection \<open>The loss loop under observation\<close>

text \<open>
  The same for the loop of \<open>ARLoss\<close>, whose every index is in range on a series that
  is long enough. Drawing changes the generator and leaves the parameters alone, so the
  step losses are evaluated in the parameters the loss started with.
\<close>

lemma recording_step_apply:
  "recording_step f (w, cs) t v h =
     (fst (f w t v h), snd (f w t v h),
      cs @ [\<lparr>step_t = t, step_x = v, step_h_prev = h, step_out = fst (f w t v h)\<rparr>])"
  by (simp add: recording_step_def split: prod.splits)

lemma ARLoss_steps_step:
  "t < length x \<Longrightarrow>
   ARLoss_steps f sl x (t # ts) (acc, h, w) =
     ARLoss_steps f sl x ts
       (acc + sl (snd (f w t (x ! t) h)) (fst (f w t (x ! t) h)), s_h (fst (f w t (x ! t) h)),
        snd (f w t (x ! t) h))"
  by (simp add: Let_def split: prod.splits)

lemma vrnn_step_fn_apply:
  "weights (snd (vrnn_step_fn F G w t v h)) = weights w \<and>
   s_x (fst (vrnn_step_fn F G w t v h)) = v \<and>
   s_h_prev (fst (vrnn_step_fn F G w t v h)) = h"
  by (simp add: vrnn_step_fn_def encoder_with_recurrence_sample_def Let_def split: prod.splits)

lemma step_loss_weights: "weights w' = weights w \<Longrightarrow> step_loss F G w' s = step_loss F G w s"
  by (simp add: step_loss_def)

lemma ARLoss_steps_recorded:
  "list_all (\<lambda>t. t < length x) ts \<Longrightarrow>
   \<exists>acc' h' w' new.
     ARLoss_steps (recording_step (vrnn_step_fn F G)) (beside_log (step_loss F G)) x ts
       (acc, h, w, cs) = Inr (acc', h', w', cs @ new) \<and>
     ARLoss_steps (vrnn_step_fn F G) (step_loss F G) x ts (acc, h, w) = Inr (acc', h', w') \<and>
     weights w' = weights w \<and>
     map step_t new = ts \<and>
     map step_x new = map (\<lambda>t. x ! t) ts \<and>
     map step_h_prev new = take (length ts) (h # map (\<lambda>c. s_h (step_out c)) new) \<and>
     list_all (\<lambda>c. s_x (step_out c) = step_x c \<and> s_h_prev (step_out c) = step_h_prev c) new \<and>
     acc' = acc + (\<Sum>c\<leftarrow>new. step_loss F G w (step_out c))"
proof (induction ts arbitrary: acc h w cs)
  case Nil
  show ?case by simp
next
  case (Cons t ts)
  let ?f = "vrnn_step_fn F G"
  have t: "t < length x" and ts: "list_all (\<lambda>t. t < length x) ts"
    using Cons.prems by simp_all
  define s where "s = fst (?f w t (x ! t) h)"
  define w1 where "w1 = snd (?f w t (x ! t) h)"
  define c where "c = \<lparr>step_t = t, step_x = x ! t, step_h_prev = h, step_out = s\<rparr>"
  have w1: "weights w1 = weights w" and sx: "s_x s = x ! t" and sh: "s_h_prev s = h"
    unfolding w1_def s_def using vrnn_step_fn_apply[of F G w t "x ! t" h] by simp_all
  have sl: "step_loss F G w1 s = step_loss F G w s" using w1 by (rule step_loss_weights)
  have sl': "step_loss F G w1 s' = step_loss F G w s'" for s' using w1 by (rule step_loss_weights)
  have rec: "ARLoss_steps (recording_step ?f) (beside_log (step_loss F G)) x (t # ts) (acc, h, w, cs) =
      ARLoss_steps (recording_step ?f) (beside_log (step_loss F G)) x ts
        (acc + step_loss F G w s, s_h s, w1, cs @ [c])"
    unfolding ARLoss_steps_step[OF t]
    by (simp add: recording_step_apply beside_log_def s_def w1_def c_def sl[unfolded s_def w1_def])
  have plain: "ARLoss_steps ?f (step_loss F G) x (t # ts) (acc, h, w) =
      ARLoss_steps ?f (step_loss F G) x ts (acc + step_loss F G w s, s_h s, w1)"
    unfolding ARLoss_steps_step[OF t]
    by (simp add: s_def w1_def sl[unfolded s_def w1_def])
  obtain acc' h' w' new where
    r: "ARLoss_steps (recording_step ?f) (beside_log (step_loss F G)) x ts
          (acc + step_loss F G w s, s_h s, w1, cs @ [c]) = Inr (acc', h', w', (cs @ [c]) @ new)"
    and p: "ARLoss_steps ?f (step_loss F G) x ts (acc + step_loss F G w s, s_h s, w1) =
          Inr (acc', h', w')"
    and ww: "weights w' = weights w1"
    and tt: "map step_t new = ts"
    and xx: "map step_x new = map (\<lambda>t. x ! t) ts"
    and hh: "map step_h_prev new = take (length ts) (s_h s # map (\<lambda>c. s_h (step_out c)) new)"
    and io: "list_all (\<lambda>c. s_x (step_out c) = step_x c \<and> s_h_prev (step_out c) = step_h_prev c) new"
    and aa: "acc' = acc + step_loss F G w s + (\<Sum>c\<leftarrow>new. step_loss F G w1 (step_out c))"
    using Cons.IH[OF ts, of "acc + step_loss F G w s" "s_h s" w1 "cs @ [c]"] by blast
  have f1: "ARLoss_steps (recording_step ?f) (beside_log (step_loss F G)) x (t # ts) (acc, h, w, cs) =
        Inr (acc', h', w', cs @ (c # new))"
    unfolding rec r by simp
  have f2: "ARLoss_steps ?f (step_loss F G) x (t # ts) (acc, h, w) = Inr (acc', h', w')"
    unfolding plain p by simp
  have f3: "weights w' = weights w" using ww w1 by simp
  have f4: "map step_t (c # new) = t # ts" using tt by (simp add: c_def)
  have f5: "map step_x (c # new) = map (\<lambda>t. x ! t) (t # ts)" using xx by (simp add: c_def)
  have f6: "map step_h_prev (c # new) =
      take (length (t # ts)) (h # map (\<lambda>c. s_h (step_out c)) (c # new))"
    using hh by (simp add: c_def)
  have f7: "list_all (\<lambda>c. s_x (step_out c) = step_x c \<and> s_h_prev (step_out c) = step_h_prev c)
      (c # new)"
    using io by (simp add: c_def sx sh)
  have f8: "acc' = acc + (\<Sum>c\<leftarrow>c # new. step_loss F G w (step_out c))"
    unfolding aa by (simp add: c_def sl')
  show ?case
    by (rule exI[of _ acc'], rule exI[of _ h'], rule exI[of _ w'], rule exI[of _ "c # new"])
      (intro conjI f1 f2 f3 f4 f5 f6 f7 f8)
qed

subsection \<open>What \<open>data_loop\<close> hands to the model\<close>

text \<open>
  \<open>data_loop\<close> is its batch loop followed by the division and the \<open>print\<close>; the
  \<open>i\<close>-th call it makes is on the transposed images of the \<open>i\<close>-th batch and a zero
  hidden state.
\<close>

lemma foldl_weighted_sum:
  "foldl (\<lambda>a (l, n). a + l * real n) acc zs = acc + (\<Sum>(l, n)\<leftarrow>zs. l * real n)"
  by (induction zs arbitrary: acc) (simp_all add: case_prod_beta)

lemma data_loop_unfold:
  "data_loop G epoch ld M mode (w, out) =
     (if dataset_len ld = 0
      then (Inl ZeroDivisionError, snd (batch_loop G M mode (batches ld) (0, w)), out)
      else (Inr (fst (batch_loop G M mode (batches ld) (0, w)) / real (dataset_len ld)),
            snd (batch_loop G M mode (batches ld) (0, w)),
            out @ [if mode
                   then Print_train_loss epoch
                          (fst (batch_loop G M mode (batches ld) (0, w)) / real (dataset_len ld))
                   else Print_test_loss
                          (fst (batch_loop G M mode (batches ld) (0, w)) / real (dataset_len ld))]))"
  by (simp add: data_loop_def Let_def split: prod.splits)

lemma data_loop_calls:
  "snd (fst (snd (data_loop G epoch ld (recording M) mode ((w, cs), out)))) =
     snd (snd (batch_loop G (recording M) mode (batches ld) (0, w, cs)))"
  unfolding data_loop_unfold by simp

lemma data_loop_call_inputs:
  "map call_inputs (snd (fst (snd (data_loop G epoch ld (recording M) mode ((w, []), out))))) =
     map (\<lambda>(d, _). \<lparr>in_x = transpose_0_1 d,
                     in_h_prev = zeros (length d) (rec_hidden_size (recurrence G))\<rparr>) (batches ld)"
  unfolding data_loop_calls batch_loop_recording_inputs by simp

lemma data_loop_nth_call:
  assumes "i < length (batches ld)"
  shows "call_inputs (snd (fst (snd (data_loop G epoch ld (recording M) mode ((w, []), out)))) ! i) =
     \<lparr>in_x = transpose_0_1 (fst (batches ld ! i)),
      in_h_prev = zeros (length (fst (batches ld ! i))) (rec_hidden_size (recurrence G))\<rparr>"
proof -
  let ?cs = "snd (fst (snd (data_loop G epoch ld (recording M) mode ((w, []), out))))"
  have len: "length ?cs = length (batches ld)"
    using arg_cong[OF data_loop_call_inputs[of G epoch ld M mode w out], of length] by simp
  have "call_inputs (?cs ! i) = map call_inputs ?cs ! i"
    using assms len by simp
  also have "\<dots> = \<lparr>in_x = transpose_0_1 (fst (batches ld ! i)),
      in_h_prev = zeros (length (fst (batches ld ! i))) (rec_hidden_size (recurrence G))\<rparr>"
    unfolding data_loop_call_inputs using assms by (simp add: case_prod_beta)
  finally show ?thesis .
qed

lemma batch_loop_recorded_sum:
  "fst (batch_loop G (recording M) mode bs (0, w, [])) =
     (\<Sum>(l, n)\<leftarrow>zip (map call_loss (snd (snd (batch_loop G (recording M) mode bs (0, w, [])))))
                    (map (\<lambda>(d, _). length d) bs). l * real n)"
  using batch_loop_recording_sum[of G M mode bs 0 w "[]"] by (simp add: foldl_weighted_sum)

lemma batch_loop_recorded_length:
  "length (snd (snd (batch_loop G (recording M) mode bs (0, w, [])))) = length bs"
  using arg_cong[OF batch_loop_recording_mode[of G M mode bs 0 w "[]"], of length] by simp
subsection \<open>The modules the notebook builds\<close>

text \<open>The addresses the constructors hand out, in the order of cells 4 and 5.\<close>

lemma notebook_globals:
  "fst (notebook_init ini) =
     \<lparr>f_phi_x = \<lparr>phi_x_fc0 = 0\<rparr>, f_phi_z = \<lparr>phi_z_fc0 = 1\<rparr>,
      prior = \<lparr>prior_fc1 = 2, prior_fc21 = 3, prior_fc22 = 4\<rparr>,
      decoder = \<lparr>gen_fc1 = 5, gen_fc2 = 6, gen_fc3 = 7, gen_f_phi_z = \<lparr>phi_z_fc0 = 1\<rparr>\<rparr>,
      encoder = \<lparr>inf_fc1 = 8, inf_fc21 = 9, inf_fc22 = 10, inf_f_phi_x = \<lparr>phi_x_fc0 = 0\<rparr>\<rparr>,
      recurrence = \<lparr>rec_rnncell = 11, rec_f_phi_x = \<lparr>phi_x_fc0 = 0\<rparr>,
                    rec_f_phi_z = \<lparr>phi_z_fc0 = 1\<rparr>, rec_hidden_size = h_dim\<rparr>\<rparr>"
  by (simp add: notebook_init_def empty_session_def Phi_x_init_def Phi_z_init_def Prior_init_def
      Generator_init_def Inference_init_def Recurrence_init_def nn_Linear_def nn_GRUCell_def
      Let_def eval_nat_numeral)

lemma example_world_well_shaped: "well_shaped example_globals (weights example_world)"
  by (simp add: example_globals_def example_world_def notebook_init_well_shaped)

lemma mean_framework_keeps_shape: "draws_keep_shape mean_framework"
  by (simp add: draws_keep_shape_def mean_framework_def)

subsection \<open>The loss is an auto-regressive sum\<close>

text \<open>
  Claim C1. On a series \<open>x\<close> of 28 steps, each of the shape the modules are built
  for, the loss of cell 7 calls the step function 28 times, at \<open>t = 0, \<dots>, 27\<close> on \<open>x[t]\<close>; the first call gets the \<open>h_prev\<close> it was
  given and every later call the \<open>h\<close> that the call before it returned. The value of
  the loss is the sum, over the 28 calls, of the batch mean of the decoder's negative
  log-likelihood plus the divergence between the encoder and the prior, on the variables
  the call returned. Observing the calls does not change the value. The loop \<open>ARLoss\<close>
  is the one modelled from the spec.
\<close>

theorem loss_is_autoregressive_sum:
  assumes "length x = 28" and "list_all (mat_shape b 28) x" and "mat_shape b 100 h0"
    and "well_shaped G (weights w)" and "draws_keep_shape F"
  shows "\<exists>v w' calls.
      ARLoss (beside_log (step_loss F G)) (recording_step (vrnn_step_fn F G)) t_max (w, [])
        \<lparr>in_x = x, in_h_prev = h0\<rparr> = Inr (v, w', calls) \<and>
      loss F G w \<lparr>in_x = x, in_h_prev = h0\<rparr> = Inr (v, w') \<and>
      map step_t calls = [0..<28] \<and>
      map step_x calls = x \<and>
      map step_h_prev calls = take 28 (h0 # map (\<lambda>c. s_h (step_out c)) calls) \<and>
      list_all (\<lambda>c. s_x (step_out c) = step_x c \<and> s_h_prev (step_out c) = step_h_prev c)
        calls \<and>
      v = (\<Sum>c\<leftarrow>calls.
             batch_mean
               (map2 (+)
                  (bernoulli_nll F
                     (Generator_forward (weights w) (decoder G) (s_z (step_out c))
                        (s_h_prev (step_out c)))
                     (s_x (step_out c)))
                  (normal_kl F
                     (Inference_forward (weights w) (encoder G) (s_x (step_out c))
                        (s_h_prev (step_out c)))
                     (Prior_forward (weights w) (prior G) (s_h_prev (step_out c))))))"
proof -
  have tm: "t_max = 28" by (simp add: t_max_def x_dim_def)
  have ok: "list_all (\<lambda>t. t < length x) [0..<28]"
    using assms(1) by (simp add: list_all_iff)
  obtain acc' h' w' new where
    r: "ARLoss_steps (recording_step (vrnn_step_fn F G)) (beside_log (step_loss F G)) x [0..<28]
          (0, h0, w, []) = Inr (acc', h', w', [] @ new)"
    and p: "ARLoss_steps (vrnn_step_fn F G) (step_loss F G) x [0..<28] (0, h0, w) =
          Inr (acc', h', w')"
    and tt: "map step_t new = [0..<28]"
    and xx: "map step_x new = map (\<lambda>t. x ! t) [0..<28]"
    and hh: "map step_h_prev new =
          take (length [0..<28::nat]) (h0 # map (\<lambda>c. s_h (step_out c)) new)"
    and io: "list_all (\<lambda>c. s_x (step_out c) = step_x c \<and> s_h_prev (step_out c) = step_h_prev c)
          new"
    and aa: "acc' = 0 + (\<Sum>c\<leftarrow>new. step_loss F G w (step_out c))"
    using ARLoss_steps_recorded[OF ok, of F G 0 h0 w "[]"] by blast
  have f1: "ARLoss (beside_log (step_loss F G)) (recording_step (vrnn_step_fn F G)) t_max (w, [])
      \<lparr>in_x = x, in_h_prev = h0\<rparr> = Inr (acc', w', new)"
    unfolding ARLoss_def tm using r by simp
  have f2: "loss F G w \<lparr>in_x = x, in_h_prev = h0\<rparr> = Inr (acc', w')"
    unfolding loss_def ARLoss_def tm using p by simp
  have f4: "map step_x new = x"
    unfolding xx using map_nth[of x] assms(1) by simp
  have f5: "map step_h_prev new = take 28 (h0 # map (\<lambda>c. s_h (step_out c)) new)"
    using hh by simp
  have f7: "acc' = (\<Sum>c\<leftarrow>new.
             batch_mean
               (map2 (+)
                  (bernoulli_nll F
                     (Generator_forward (weights w) (decoder G) (s_z (step_out c))
                        (s_h_prev (step_out c)))
                     (s_x (step_out c)))
                  (normal_kl F
                     (Inference_forward (weights w) (encoder G) (s_x (step_out c))
                        (s_h_prev (step_out c)))
                     (Prior_forward (weights w) (prior G) (s_h_prev (step_out c))))))"
    unfolding aa step_loss_def by simp
  show ?thesis
    by (rule exI[of _ acc'], rule exI[of _ w'], rule exI[of _ new])
      (intro conjI f1 f2 tt f4 f5 io f7)
qed

text \<open>On 28 steps of one zero row each, with the initial parameters.\<close>

theorem loss_is_autoregressive_sum_witness:
  "length (replicate 28 (zeros 1 28)) = 28 \<and>
   list_all (mat_shape 1 28) (replicate 28 (zeros 1 28)) \<and>
   mat_shape 1 100 (zeros 1 100) \<and>
   well_shaped example_globals (weights example_world) \<and>
   draws_keep_shape mean_framework \<and>
   (\<exists>v w' calls.
      ARLoss (beside_log (step_loss mean_framework example_globals))
        (recording_step (vrnn_step_fn mean_framework example_globals)) t_max
        (example_world, [])
        \<lparr>in_x = replicate 28 (zeros 1 28), in_h_prev = zeros 1 100\<rparr> = Inr (v, w', calls) \<and>
      loss mean_framework example_globals example_world
        \<lparr>in_x = replicate 28 (zeros 1 28), in_h_prev = zeros 1 100\<rparr> = Inr (v, w') \<and>
      map step_t calls = [0..<28] \<and>
      map step_x calls = replicate 28 (zeros 1 28) \<and>
      map step_h_prev calls = take 28 (zeros 1 100 # map (\<lambda>c. s_h (step_out c)) calls))"
proof -
  have len: "length (replicate 28 (zeros 1 28)) = 28" by simp
  have xs: "list_all (mat_shape 1 28) (replicate 28 (zeros 1 28))"
    by (simp add: list_all_iff mat_shape_zeros)
  have h0: "mat_shape 1 100 (zeros 1 100)" by (rule mat_shape_zeros)
  have "\<exists>v w' calls.
      ARLoss (beside_log (step_loss mean_framework example_globals))
        (recording_step (vrnn_step_fn mean_framework example_globals)) t_max
        (example_world, [])
        \<lparr>in_x = replicate 28 (zeros 1 28), in_h_prev = zeros 1 100\<rparr> = Inr (v, w', calls) \<and>
      loss mean_framework example_globals example_world
        \<lparr>in_x = replicate 28 (zeros 1 28), in_h_prev = zeros 1 100\<rparr> = Inr (v, w') \<and>
      map step_t calls = [0..<28] \<and>
      map step_x calls = replicate 28 (zeros 1 28) \<and>
      map step_h_prev calls = take 28 (zeros 1 100 # map (\<lambda>c. s_h (step_out c)) calls)"
    using loss_is_autoregressive_sum[OF len xs h0 example_world_well_shaped
        mean_framework_keeps_shape]
    by blast
  then show ?thesis
    by (intro conjI len xs h0 example_world_well_shaped mean_framework_keeps_shape)
qed

subsection \<open>The hidden state starts at zero\<close>

text \<open>
  Claim C2. Every call of \<open>train\<close> or \<open>test\<close> that \<open>data_loop\<close> makes, in either
  mode, gets as \<open>h_prev\<close> the all-zero tensor with one row of width 100 per image of
  its batch, and the first generation step of \<open>plot_image_from_latent\<close> gets the
  all-zero tensor with one row of width 100 per requested sample. The width is
  \<open>recurrence.hidden_size\<close> of the modules the notebook builds.
\<close>

theorem hidden_state_starts_at_zero:
  assumes G: "G = fst (notebook_init ini)"
  shows "map (\<lambda>c. in_h_prev (call_inputs c))
           (snd (fst (snd (data_loop G epoch ld (recording M) train_mode ((w, []), out))))) =
           map (\<lambda>(data, _). replicate (length data) (replicate 100 0)) (batches ld) \<and>
         map call_train
           (snd (fst (snd (data_loop G epoch ld (recording M) train_mode ((w, []), out))))) =
           replicate (length (batches ld)) train_mode \<and>
         map fst (take 1 (snd (snd (plot_image_from_latent G (recording_gen gen)
                                       (beside_log smean) b (v, []))))) =
           [replicate b (replicate 100 0)]"
proof -
  let ?cs = "snd (fst (snd (data_loop G epoch ld (recording M) train_mode ((w, []), out))))"
  have hs: "rec_hidden_size (recurrence G) = 100"
    unfolding G by (simp add: notebook_hidden_size h_dim_def)
  have "map (\<lambda>c. in_h_prev (call_inputs c)) ?cs = map in_h_prev (map call_inputs ?cs)"
    by simp
  also have "\<dots> = map (\<lambda>(data, _). replicate (length data) (replicate 100 0)) (batches ld)"
    unfolding data_loop_call_inputs by (simp add: hs zeros_def case_prod_beta)
  finally have a: "map (\<lambda>c. in_h_prev (call_inputs c)) ?cs =
      map (\<lambda>(data, _). replicate (length data) (replicate 100 0)) (batches ld)" .
  have b: "map call_train ?cs = replicate (length (batches ld)) train_mode"
    unfolding data_loop_calls batch_loop_recording_mode by simp
  let ?L = "snd (snd (plot_image_from_latent G (recording_gen gen) (beside_log smean) b (v, [])))"
  have L: "?L = snd (snd (snd (generation_loop (recording_gen gen) (beside_log smean) [0..<t_max]
      ([], zeros b 100, v, []))))"
    unfolding plot_image_from_latent_unfold by (simp add: hs)
  have "map fst (take 1 ?L) = take 1 (map fst ?L)" by (simp add: take_map)
  also have "\<dots> = [zeros b 100]"
    unfolding L generation_loop_recording_chain by (simp add: t_max_def x_dim_def)
  finally have c: "map fst (take 1 ?L) = [replicate b (replicate 100 0)]"
    by (simp add: zeros_def)
  show ?thesis using a b c by (intro conjI)
qed

text \<open>On the example loader in test mode, and for three generated samples.\<close>

theorem hidden_state_starts_at_zero_witness:
  "example_globals = fst (notebook_init zero_init) \<and>
   map (\<lambda>c. in_h_prev (call_inputs c))
     (snd (fst (snd (data_loop example_globals 1 example_loader (recording constant_model) False
                       ((example_world, []), []))))) =
     [replicate 2 (replicate 100 0), replicate 1 (replicate 100 0)] \<and>
   map call_train
     (snd (fst (snd (data_loop example_globals 1 example_loader (recording constant_model) False
                       ((example_world, []), []))))) =
     [False, False] \<and>
   map fst (take 1 (snd (snd (plot_image_from_latent example_globals
       (recording_gen (generate_from_prior_sample mean_framework example_globals))
       (beside_log (decoder_sample_mean example_globals)) 3 (example_world, []))))) =
     [replicate 3 (replicate 100 0)]"
  using hidden_state_starts_at_zero[OF example_globals_def, of 1 example_loader constant_model
      False example_world "[]" "generate_from_prior_sample mean_framework example_globals"
      "decoder_sample_mean example_globals" 3 example_world]
  by (simp add: example_loader_def example_globals_def)

subsection \<open>Generation\<close>

text \<open>
  Claim C3. For every batch size \<open>b\<close>, \<open>plot_image_from_latent\<close> makes exactly 28
  calls of the generate-from-prior composite; the first gets the zero state and each
  later one the \<open>h\<close> of the call before. The result has shape \<open>(b, 28, 28)\<close>, and row
  \<open>t\<close> of sample \<open>i\<close> is row \<open>i\<close> of the \<open>probs\<close> that \<open>Generator.forward\<close> returns
  on the \<open>z\<close> and \<open>h_prev\<close> of call \<open>t\<close>: the mean of the decoder's distribution. The
  parameters have the shapes their constructors gave them, and a draw has the shape of its
  distribution.
\<close>

theorem plot_image_from_latent_generates:
  fixes F :: "'g framework" and w :: "'g world"
  assumes "G = fst (notebook_init ini)" and "draws_keep_shape F"
    and "well_shaped G (weights w)"
  shows "\<exists>img w' calls.
      plot_image_from_latent G (recording_gen (generate_from_prior_sample F G))
        (beside_log (decoder_sample_mean G)) b (w, []) = (img, w', calls) \<and>
      plot_image_from_latent G (generate_from_prior_sample F G) (decoder_sample_mean G) b w =
        (img, w') \<and>
      length calls = 28 \<and>
      map fst calls = take 28 (zeros b 100 # map (\<lambda>c. s_h (snd c)) calls) \<and>
      length img = b \<and>
      (\<forall>i<b. length (img ! i) = 28 \<and>
         (\<forall>t<28. length (img ! i ! t) = 28 \<and>
            img ! i ! t =
              probs (Generator_forward (weights w) (decoder G)
                       (s_z (snd (calls ! t))) (s_h_prev (snd (calls ! t)))) ! i))"
proof -
  let ?P = "plot_image_from_latent G (recording_gen (generate_from_prior_sample F G))
      (beside_log (decoder_sample_mean G)) b (w, [])"
  have run: "?P = (fst ?P, fst (snd ?P), snd (snd ?P))" by simp
  note r = plot_image_from_latent_run[OF assms run]
  show ?thesis
    by (rule exI[of _ "fst ?P"], rule exI[of _ "fst (snd ?P)"], rule exI[of _ "snd (snd ?P)"])
      (use run r in blast)
qed

text \<open>Two samples from the initial parameters, drawing the means.\<close>

theorem plot_image_from_latent_generates_witness:
  "example_globals = fst (notebook_init zero_init) \<and>
   draws_keep_shape mean_framework \<and>
   well_shaped example_globals (weights example_world) \<and>
   (\<exists>img w' calls.
      plot_image_from_latent example_globals
        (recording_gen (generate_from_prior_sample mean_framework example_globals))
        (beside_log (decoder_sample_mean example_globals)) 2 (example_world, []) =
        (img, w', calls) \<and>
      plot_image_from_latent example_globals
        (generate_from_prior_sample mean_framework example_globals)
        (decoder_sample_mean example_globals) 2 example_world =
        (img, w') \<and>
      length calls = 28 \<and>
      map fst calls = take 28 (zeros 2 100 # map (\<lambda>c. s_h (snd c)) calls) \<and>
      length img = 2 \<and>
      (\<forall>i<2. length (img ! i) = 28 \<and>
         (\<forall>t<28. length (img ! i ! t) = 28 \<and>
            img ! i ! t =
              probs (Generator_forward (weights example_world) (decoder example_globals)
                       (s_z (snd (calls ! t))) (s_h_prev (snd (calls ! t)))) ! i)))"
  by (rule conjI[OF example_globals_def conjI[OF mean_framework_keeps_shape
        conjI[OF example_world_well_shaped
          plot_image_from_latent_generates[OF example_globals_def mean_framework_keeps_shape
            example_world_well_shaped, of 2]]]])

subsection \<open>Sequence batches\<close>

text \<open>
  Claim C4. For a loaded batch of \<open>n > 0\<close> images of 28 rows of width 28, the series
  \<open>data_loop\<close> hands to the model has the time axis first: 28 steps, each with one row
  of width 28 per image, entry \<open>(t, j)\<close> being row \<open>t\<close> of image \<open>j\<close>. The sequence
  length \<open>t_max\<close> is \<open>x_dim = 28\<close>, which is also what \<open>init_dataset\<close> returns.
\<close>

theorem sequence_batches_are_time_major:
  assumes i: "i < length (batches ld)" and d: "batches ld ! i = (data, labels)"
    and ne: "data \<noteq> []" and sh: "list_all (mat_shape 28 28) data"
  shows "(let x = in_x (call_inputs
                   (snd (fst (snd (data_loop G epoch ld (recording M) train_mode
                                      ((w, []), out)))) ! i))
          in length x = 28 \<and> list_all (mat_shape (length data) 28) x \<and>
             (\<forall>t<28. \<forall>j<length data. x ! t ! j = data ! j ! t)) \<and>
         t_max = 28 \<and> t_max = x_dim \<and> fixed_t_size = t_max"
proof -
  obtain m ms where data: "data = m # ms" using ne by (cases data) auto
  have m: "length m = 28" using sh by (simp add: data mat_shape_def)
  have x: "in_x (call_inputs (snd (fst (snd (data_loop G epoch ld (recording M) train_mode
      ((w, []), out)))) ! i)) = transpose_0_1 data"
    unfolding data_loop_nth_call[OF i] by (simp add: d)
  have len: "length (transpose_0_1 data) = 28"
    unfolding data using m by (simp add: length_transpose_0_1)
  have nth: "transpose_0_1 data ! t = map (\<lambda>u. u ! t) data" if "t < 28" for t
    unfolding data using that m by (simp add: nth_transpose_0_1 del: list.map)
  have row: "mat_shape (length data) 28 (transpose_0_1 data ! t)" if "t < 28" for t
  proof -
    have "length (u ! t) = 28" if "u \<in> set data" for u
    proof -
      have "mat_shape 28 28 u" using sh that by (simp add: list_all_iff)
      then show ?thesis using \<open>t < 28\<close> by (simp add: mat_shape_def list_all_length)
    qed
    then show ?thesis
      unfolding nth[OF that] by (simp add: mat_shape_def list_all_iff)
  qed
  have rows: "list_all (mat_shape (length data) 28) (transpose_0_1 data)"
    using row len by (simp add: list_all_length)
  have el: "transpose_0_1 data ! t ! j = data ! j ! t" if "t < 28" and "j < length data" for t j
    unfolding nth[OF that(1)] using that(2) by simp
  show ?thesis
    unfolding x Let_def using len rows el
    by (simp add: t_max_def x_dim_def fixed_t_size_def)
qed

text \<open>The first batch of the example loader.\<close>

theorem sequence_batches_are_time_major_witness:
  "0 < length (batches example_loader) \<and>
   batches example_loader ! 0 = (replicate 2 (zeros 28 28), [0, 1]) \<and>
   replicate 2 (zeros 28 28) \<noteq> [] \<and>
   list_all (mat_shape 28 28) (replicate 2 (zeros 28 28)) \<and>
   (let x = in_x (call_inputs
              (snd (fst (snd (data_loop example_globals 1 example_loader
                                (recording constant_model) True ((example_world, []), [])))) ! 0))
    in length x = 28 \<and> list_all (mat_shape (length (replicate 2 (zeros 28 28))) 28) x \<and>
       (\<forall>t<28. \<forall>j<length (replicate 2 (zeros 28 28)).
          x ! t ! j = replicate 2 (zeros 28 28) ! j ! t)) \<and>
   t_max = 28 \<and> t_max = x_dim \<and> fixed_t_size = t_max"
proof -
  have i: "0 < length (batches example_loader)" by (simp add: example_loader_def)
  have d: "batches example_loader ! 0 = (replicate 2 (zeros 28 28), [0, 1])"
    by (simp add: example_loader_def)
  have ne: "replicate 2 (zeros 28 28) \<noteq> []" by simp
  have sh: "list_all (mat_shape 28 28) (replicate 2 (zeros 28 28))"
    by (simp add: list_all_iff mat_shape_zeros)
  show ?thesis
    by (rule conjI[OF i conjI[OF d conjI[OF ne conjI[OF sh
        sequence_batches_are_time_major[OF i d ne sh, of example_globals 1
          constant_model True example_world "[]"]]]]])
qed

subsection \<open>The recurrence is a function of its inputs and its own parameters\<close>

text \<open>
  The run of \<open>Recurrence.forward\<close> leaves the state of the run as it found it, and
  its outcome is the same in two states that agree on the layers read. Both hold for
  each library call it makes and pass through the sequencing.
\<close>

lemma nn_Linear_call_frame:
  "snd (nn_Linear_call r x w) = w"
  by (simp add: nn_Linear_call_def bind_run_def get_linear_def return_run_def raise_run_def)

lemma nn_Linear_call_agree:
  "linear_at (weights w) r = linear_at (weights w') r \<Longrightarrow>
   fst (nn_Linear_call r x w) = fst (nn_Linear_call r x w')"
  by (simp add: nn_Linear_call_def bind_run_def get_linear_def return_run_def raise_run_def)

lemma Phi_call_frame:
  "snd (Phi_x_call m x w) = w" "snd (Phi_z_call n z w) = w"
  by (simp_all add: Phi_x_call_def Phi_z_call_def nn_Linear_call_def bind_run_def
      get_linear_def return_run_def raise_run_def F_relu_def)

lemma Phi_call_agree:
  "linear_at (weights w) (phi_x_fc0 m) = linear_at (weights w') (phi_x_fc0 m) \<Longrightarrow>
   fst (Phi_x_call m x w) = fst (Phi_x_call m x w')"
  "linear_at (weights w) (phi_z_fc0 n) = linear_at (weights w') (phi_z_fc0 n) \<Longrightarrow>
   fst (Phi_z_call n z w) = fst (Phi_z_call n z w')"
  by (simp_all add: Phi_x_call_def Phi_z_call_def nn_Linear_call_def bind_run_def
      get_linear_def return_run_def raise_run_def F_relu_def)

lemma nn_GRUCell_call_frame: "snd (nn_GRUCell_call r x h w) = w"
  by (simp add: nn_GRUCell_call_def bind_run_def get_grucell_def return_run_def raise_run_def)

lemma nn_GRUCell_call_agree:
  "grucell_at (weights w) r = grucell_at (weights w') r \<Longrightarrow>
   fst (nn_GRUCell_call r x h w) = fst (nn_GRUCell_call r x h w')"
  by (simp add: nn_GRUCell_call_def bind_run_def get_grucell_def return_run_def raise_run_def)

lemma torch_cat_frame: "snd (torch_cat a b w) = w" "fst (torch_cat a b w) = fst (torch_cat a b w')"
  by (simp_all add: torch_cat_def return_run_def raise_run_def)

lemma bind_run_apply:
  "bind_run m f w =
     (case fst (m w) of Inl e \<Rightarrow> (Inl e, snd (m w)) | Inr a \<Rightarrow> f a (snd (m w)))"
  by (simp add: bind_run_def split: prod.splits sum.splits)

lemma Recurrence_call_frame: "snd (Recurrence_call m x z h_prev w) = w"
  unfolding Recurrence_call_def
  by (simp add: bind_run_apply Phi_call_frame torch_cat_frame nn_GRUCell_call_frame
      split: sum.splits)

lemma Recurrence_call_agree:
  assumes "grucell_at (weights w) (rec_rnncell m) = grucell_at (weights w') (rec_rnncell m)"
    and "linear_at (weights w) (phi_x_fc0 (rec_f_phi_x m)) =
         linear_at (weights w') (phi_x_fc0 (rec_f_phi_x m))"
    and "linear_at (weights w) (phi_z_fc0 (rec_f_phi_z m)) =
         linear_at (weights w') (phi_z_fc0 (rec_f_phi_z m))"
  shows "fst (Recurrence_call m x z h_prev w) = fst (Recurrence_call m x z h_prev w')"
proof -
  note z = Phi_call_agree(2)[OF assms(3), of z]
  note x = Phi_call_agree(1)[OF assms(2), of x]
  note g = nn_GRUCell_call_agree[OF assms(1)]
  show ?thesis
    unfolding Recurrence_call_def
    by (simp add: bind_run_apply Phi_call_frame torch_cat_frame(1) z x g
        torch_cat_frame(2)[of _ _ w w'] split: sum.splits)
qed

text \<open>
  On operands of the shapes the layers are built for no call raises, and the values
  passed from call to call are those of the forward passes as functions. On operands
  whose batch sizes differ some call raises.
\<close>

lemma nn_Linear_call_fits:
  assumes "linear_shape n_in n_out (linear_at (weights w) r)" and "mat_shape b n_in x"
  shows "nn_Linear_call r x w = (Inr (Linear_forward (linear_at (weights w) r) x), w)"
  using assms
  by (simp add: nn_Linear_call_def bind_run_def get_linear_def return_run_def linear_shape_def
      mat_shape_def list_all_iff)

lemma Phi_x_call_fits:
  assumes "linear_shape n_in n_out (linear_at (weights w) (phi_x_fc0 m))" and "mat_shape b n_in x"
  shows "Phi_x_call m x w = (Inr (Phi_x_forward (weights w) m x), w)"
  by (simp add: Phi_x_call_def bind_run_def nn_Linear_call_fits[OF assms] F_relu_def
      return_run_def Phi_x_forward_def)

lemma Phi_z_call_fits:
  assumes "linear_shape n_in n_out (linear_at (weights w) (phi_z_fc0 m))" and "mat_shape b n_in z"
  shows "Phi_z_call m z w = (Inr (Phi_z_forward (weights w) m z), w)"
  by (simp add: Phi_z_call_def bind_run_def nn_Linear_call_fits[OF assms] F_relu_def
      return_run_def Phi_z_forward_def)

lemma mat_shape_cat_last:
  "mat_shape b n a \<Longrightarrow> mat_shape b k c \<Longrightarrow> mat_shape b (n + k) (cat_last a c)"
  by (simp add: mat_shape_def cat_last_def list_all_length)

lemma mat_shape_Phi_forward:
  "linear_shape n_in n_out (linear_at \<theta> (phi_x_fc0 m)) \<Longrightarrow> length x = b \<Longrightarrow>
   mat_shape b n_out (Phi_x_forward \<theta> m x)"
  "linear_shape n_in n_out (linear_at \<theta> (phi_z_fc0 n)) \<Longrightarrow> length z = b \<Longrightarrow>
   mat_shape b n_out (Phi_z_forward \<theta> n z)"
  by (simp_all add: Phi_x_forward_def Phi_z_forward_def mat_shape_map_map
      mat_shape_Linear_forward)

lemma Recurrence_call_fits:
  assumes c: "grucell_shape (h_dim * 2) h_dim (grucell_at (weights w) (rec_rnncell m))"
    and lx: "linear_shape x_dim h_dim (linear_at (weights w) (phi_x_fc0 (rec_f_phi_x m)))"
    and lz: "linear_shape z_dim h_dim (linear_at (weights w) (phi_z_fc0 (rec_f_phi_z m)))"
    and x: "mat_shape b x_dim x" and z: "mat_shape b z_dim z" and h: "mat_shape b h_dim h_prev"
  shows "Recurrence_call m x z h_prev w = (Inr (Recurrence_forward (weights w) m x z h_prev), w)"
    and "mat_shape b h_dim (Recurrence_forward (weights w) m x z h_prev)"
proof -
  let ?fz = "Phi_z_forward (weights w) (rec_f_phi_z m) z"
  let ?fx = "Phi_x_forward (weights w) (rec_f_phi_x m) x"
  have fz: "mat_shape b h_dim ?fz"
    using lz mat_shape_length[OF z] by (rule mat_shape_Phi_forward(2))
  have fx: "mat_shape b h_dim ?fx"
    using lx mat_shape_length[OF x] by (rule mat_shape_Phi_forward(1))
  have "mat_shape b (h_dim + h_dim) (cat_last ?fz ?fx)"
    using fz fx by (rule mat_shape_cat_last)
  then have cat: "mat_shape b (h_dim * 2) (cat_last ?fz ?fx)"
    by (simp only: mult_2_right)
  have len: "length ?fz = length ?fx"
    using mat_shape_length[OF fz] mat_shape_length[OF fx] by simp
  have t: "torch_cat ?fz ?fx w = (Inr (cat_last ?fz ?fx), w)"
    using len by (simp add: torch_cat_def return_run_def)
  have g: "nn_GRUCell_call (rec_rnncell m) (cat_last ?fz ?fx) h_prev w =
      (Inr (GRUCell_forward (grucell_at (weights w) (rec_rnncell m)) (cat_last ?fz ?fx) h_prev), w)"
    using c cat h
    by (simp add: nn_GRUCell_call_def bind_run_def get_grucell_def return_run_def
        grucell_shape_def mat_shape_def)
  show "Recurrence_call m x z h_prev w = (Inr (Recurrence_forward (weights w) m x z h_prev), w)"
    unfolding Recurrence_call_def
    by (simp add: bind_run_def Phi_z_call_fits[OF lz z] Phi_x_call_fits[OF lx x] t g
        Recurrence_forward_def)
  show "mat_shape b h_dim (Recurrence_forward (weights w) m x z h_prev)"
    unfolding Recurrence_forward_def
    by (rule mat_shape_GRUCell_forward[OF c mat_shape_length[OF cat] h])
qed

lemma Phi_call_length:
  "fst (Phi_x_call m x w) = Inr a \<Longrightarrow> length a = length x"
  "fst (Phi_z_call n z w) = Inr c \<Longrightarrow> length c = length z"
  by (auto simp: Phi_x_call_def Phi_z_call_def nn_Linear_call_def bind_run_def get_linear_def
      return_run_def raise_run_def F_relu_def length_Linear_forward split: if_splits)

lemma Recurrence_call_raises:
  assumes "length z \<noteq> length x \<or> length h_prev \<noteq> length x"
  shows "fst (Recurrence_call m x z h_prev w) = Inl RuntimeError"
proof (cases "fst (Phi_z_call (rec_f_phi_z m) z w)")
  case (Inl e)
  then have "e = RuntimeError"
    by (auto simp: Phi_z_call_def nn_Linear_call_def bind_run_def get_linear_def
        return_run_def raise_run_def F_relu_def split: if_splits)
  then show ?thesis using Inl by (simp add: Recurrence_call_def bind_run_apply)
next
  case fz: (Inr a)
  show ?thesis
  proof (cases "fst (Phi_x_call (rec_f_phi_x m) x w)")
    case (Inl e)
    then have "e = RuntimeError"
      by (auto simp: Phi_x_call_def nn_Linear_call_def bind_run_def get_linear_def
          return_run_def raise_run_def F_relu_def split: if_splits)
    then show ?thesis
      using Inl fz by (simp add: Recurrence_call_def bind_run_apply Phi_call_frame)
  next
    case fx: (Inr c)
    have la: "length a = length z" using fz by (rule Phi_call_length(2))
    have lc: "length c = length x" using fx by (rule Phi_call_length(1))
    show ?thesis
      using assms fz fx la lc
      by (auto simp: Recurrence_call_def bind_run_apply Phi_call_frame torch_cat_def
          return_run_def raise_run_def nn_GRUCell_call_def get_grucell_def length_cat_last)
  qed
qed

text \<open>
  Claim C5. \<open>Recurrence.forward\<close> is run on the same \<open>x\<close>, \<open>z\<close> and \<open>h_prev\<close> in
  two states of the run that agree on the three layers the module reaches, its cell and
  the two feature extractors; the states may differ in everything else, the generator
  and the other parameters among it. The two runs have the same outcome, the same \<open>h\<close>
  or the same exception. The run leaves the state as it found it: no draw advances the
  generator and no parameter is written. On operands of the shapes the layers are built
  for, the outcome is one application of the recurrent cell to the concatenated features
  and \<open>h_prev\<close>, a hidden state of shape \<open>(b, 100)\<close>; on operands whose batch sizes
  differ it is the library's \<open>RuntimeError\<close>.
\<close>

theorem Recurrence_forward_deterministic:
  assumes "grucell_at (weights w) (rec_rnncell m) = grucell_at (weights w') (rec_rnncell m)"
    and "linear_at (weights w) (phi_x_fc0 (rec_f_phi_x m)) =
         linear_at (weights w') (phi_x_fc0 (rec_f_phi_x m))"
    and "linear_at (weights w) (phi_z_fc0 (rec_f_phi_z m)) =
         linear_at (weights w') (phi_z_fc0 (rec_f_phi_z m))"
  shows "fst (Recurrence_call m x z h_prev w) = fst (Recurrence_call m x z h_prev w') \<and>
         snd (Recurrence_call m x z h_prev w) = w \<and>
         (0 < b \<and>
          grucell_shape (h_dim * 2) h_dim (grucell_at (weights w) (rec_rnncell m)) \<and>
          linear_shape x_dim h_dim (linear_at (weights w) (phi_x_fc0 (rec_f_phi_x m))) \<and>
          linear_shape z_dim h_dim (linear_at (weights w) (phi_z_fc0 (rec_f_phi_z m))) \<and>
          mat_shape b x_dim x \<and> mat_shape b z_dim z \<and> mat_shape b h_dim h_prev \<longrightarrow>
          fst (Recurrence_call m x z h_prev w) =
            Inr (Recurrence_forward (weights w) m x z h_prev) \<and>
          fst (Recurrence_call m x z h_prev w) =
            Inr (GRUCell_forward (grucell_at (weights w) (rec_rnncell m))
                   (cat_last (Phi_z_forward (weights w) (rec_f_phi_z m) z)
                             (Phi_x_forward (weights w) (rec_f_phi_x m) x))
                   h_prev) \<and>
          mat_shape b h_dim (Recurrence_forward (weights w) m x z h_prev)) \<and>
         (length z \<noteq> length x \<or> length h_prev \<noteq> length x \<longrightarrow>
          fst (Recurrence_call m x z h_prev w) = Inl RuntimeError)"
proof (intro conjI impI)
  show "fst (Recurrence_call m x z h_prev w) = fst (Recurrence_call m x z h_prev w')"
    using assms by (rule Recurrence_call_agree)
  show "snd (Recurrence_call m x z h_prev w) = w" by (rule Recurrence_call_frame)
  show "fst (Recurrence_call m x z h_prev w) = Inl RuntimeError"
    if "length z \<noteq> length x \<or> length h_prev \<noteq> length x"
    using that by (rule Recurrence_call_raises)
next
  assume s: "0 < b \<and>
      grucell_shape (h_dim * 2) h_dim (grucell_at (weights w) (rec_rnncell m)) \<and>
      linear_shape x_dim h_dim (linear_at (weights w) (phi_x_fc0 (rec_f_phi_x m))) \<and>
      linear_shape z_dim h_dim (linear_at (weights w) (phi_z_fc0 (rec_f_phi_z m))) \<and>
      mat_shape b x_dim x \<and> mat_shape b z_dim z \<and> mat_shape b h_dim h_prev"
  then have c: "grucell_shape (h_dim * 2) h_dim (grucell_at (weights w) (rec_rnncell m))"
    and lx: "linear_shape x_dim h_dim (linear_at (weights w) (phi_x_fc0 (rec_f_phi_x m)))"
    and lz: "linear_shape z_dim h_dim (linear_at (weights w) (phi_z_fc0 (rec_f_phi_z m)))"
    and x: "mat_shape b x_dim x" and z: "mat_shape b z_dim z" and h: "mat_shape b h_dim h_prev"
    by simp_all
  show "fst (Recurrence_call m x z h_prev w) = Inr (Recurrence_forward (weights w) m x z h_prev)"
    unfolding Recurrence_call_fits(1)[OF c lx lz x z h] by simp
  show "fst (Recurrence_call m x z h_prev w) =
      Inr (GRUCell_forward (grucell_at (weights w) (rec_rnncell m))
             (cat_last (Phi_z_forward (weights w) (rec_f_phi_z m) z)
                       (Phi_x_forward (weights w) (rec_f_phi_x m) x))
             h_prev)"
    unfolding Recurrence_call_fits(1)[OF c lx lz x z h] by (simp add: Recurrence_forward_def)
  show "mat_shape b h_dim (Recurrence_forward (weights w) m x z h_prev)"
    by (rule Recurrence_call_fits(2)[OF c lx lz x z h])
qed

text \<open>
  Two states that differ in the generator and in the prior's first layer, on one row of
  zeros; a \<open>z\<close> of two rows beside an \<open>x\<close> of one raises. The draw from a Normal,
  for comparison, does not leave the state as it found it.
\<close>

theorem Recurrence_forward_deterministic_witness:
  "grucell_at (weights counting_world) (rec_rnncell (recurrence example_globals)) =
     grucell_at (weights other_world) (rec_rnncell (recurrence example_globals)) \<and>
   linear_at (weights counting_world) (phi_x_fc0 (rec_f_phi_x (recurrence example_globals))) =
     linear_at (weights other_world) (phi_x_fc0 (rec_f_phi_x (recurrence example_globals))) \<and>
   linear_at (weights counting_world) (phi_z_fc0 (rec_f_phi_z (recurrence example_globals))) =
     linear_at (weights other_world) (phi_z_fc0 (rec_f_phi_z (recurrence example_globals))) \<and>
   linear_at (weights counting_world) 2 \<noteq> linear_at (weights other_world) 2 \<and>
   fw_state counting_world \<noteq> fw_state other_world \<and>
   fst (Recurrence_call (recurrence example_globals) (zeros 1 28) (zeros 1 64) (zeros 1 100)
          counting_world) =
     fst (Recurrence_call (recurrence example_globals) (zeros 1 28) (zeros 1 64) (zeros 1 100)
          other_world) \<and>
   snd (Recurrence_call (recurrence example_globals) (zeros 1 28) (zeros 1 64) (zeros 1 100)
          counting_world) = counting_world \<and>
   fst (Recurrence_call (recurrence example_globals) (zeros 1 28) (zeros 1 64) (zeros 1 100)
          counting_world) =
     Inr (Recurrence_forward (weights counting_world) (recurrence example_globals)
            (zeros 1 28) (zeros 1 64) (zeros 1 100)) \<and>
   fst (Recurrence_call (recurrence example_globals) (zeros 1 28) (zeros 1 64) (zeros 1 100)
          counting_world) =
     Inr (GRUCell_forward (grucell_at (weights counting_world) (rec_rnncell (recurrence example_globals)))
            (cat_last (Phi_z_forward (weights counting_world)
                         (rec_f_phi_z (recurrence example_globals)) (zeros 1 64))
                      (Phi_x_forward (weights counting_world)
                         (rec_f_phi_x (recurrence example_globals)) (zeros 1 28)))
            (zeros 1 100)) \<and>
   mat_shape 1 h_dim (Recurrence_forward (weights counting_world) (recurrence example_globals)
                        (zeros 1 28) (zeros 1 64) (zeros 1 100)) \<and>
   fst (Recurrence_call (recurrence example_globals) (zeros 1 28) (zeros 2 64) (zeros 1 100)
          counting_world) = Inl RuntimeError \<and>
   snd (draw_normal counting_framework \<lparr>loc = zeros 1 64, scale = zeros 1 64\<rparr> counting_world) \<noteq>
     counting_world"
proof -
  let ?m = "recurrence example_globals"
  let ?\<theta> = "weights counting_world"
  have m: "rec_rnncell ?m = 11 \<and> phi_x_fc0 (rec_f_phi_x ?m) = 0 \<and> phi_z_fc0 (rec_f_phi_z ?m) = 1"
    by (simp add: example_globals_def notebook_globals)
  have a: "grucell_at ?\<theta> (rec_rnncell ?m) = grucell_at (weights other_world) (rec_rnncell ?m)"
    by (simp add: other_world_def other_weights_def counting_world_def)
  have b: "linear_at ?\<theta> (phi_x_fc0 (rec_f_phi_x ?m)) =
      linear_at (weights other_world) (phi_x_fc0 (rec_f_phi_x ?m))"
    by (simp add: other_world_def other_weights_def counting_world_def m)
  have c: "linear_at ?\<theta> (phi_z_fc0 (rec_f_phi_z ?m)) =
      linear_at (weights other_world) (phi_z_fc0 (rec_f_phi_z ?m))"
    by (simp add: other_world_def other_weights_def counting_world_def m)
  have ws: "well_shaped example_globals ?\<theta>"
    by (simp add: example_globals_def counting_world_def notebook_init_well_shaped)
  have d: "linear_at ?\<theta> 2 \<noteq> linear_at (weights other_world) 2"
  proof -
    have "length (weight (linear_at ?\<theta> 2)) = h_dim"
      using ws
      by (simp add: well_shaped_def linear_shape_def mat_shape_def example_globals_def
          notebook_globals)
    moreover have "length (weight (linear_at (weights other_world) 2)) = 1"
      by (simp add: other_world_def other_weights_def)
    ultimately show ?thesis by (auto simp: h_dim_def)
  qed
  have g: "fw_state counting_world \<noteq> fw_state other_world"
    by (simp add: counting_world_def other_world_def)
  have shapes: "0 < (1 :: nat) \<and>
      grucell_shape (h_dim * 2) h_dim (grucell_at ?\<theta> (rec_rnncell ?m)) \<and>
      linear_shape x_dim h_dim (linear_at ?\<theta> (phi_x_fc0 (rec_f_phi_x ?m))) \<and>
      linear_shape z_dim h_dim (linear_at ?\<theta> (phi_z_fc0 (rec_f_phi_z ?m))) \<and>
      mat_shape 1 x_dim (zeros 1 28) \<and> mat_shape 1 z_dim (zeros 1 64) \<and>
      mat_shape 1 h_dim (zeros 1 100)"
    using ws mat_shape_zeros[of 1 28] mat_shape_zeros[of 1 64] mat_shape_zeros[of 1 100]
    by (simp add: well_shaped_def x_dim_def z_dim_def h_dim_def)
  have bad: "length (zeros 2 64) \<noteq> length (zeros 1 28) \<or>
      length (zeros 1 100) \<noteq> length (zeros 1 28)"
    by (simp add: zeros_def)
  note t = Recurrence_forward_deterministic[OF a b c, of "zeros 1 28" "zeros 1 64" "zeros 1 100" 1]
  note t' = Recurrence_forward_deterministic[OF a b c, of "zeros 1 28" "zeros 2 64" "zeros 1 100" 1]
  note t1 = conjunct1[OF t]
  note t2 = conjunct1[OF conjunct2[OF t]]
  note t3 = mp[OF conjunct1[OF conjunct2[OF conjunct2[OF t]]] shapes]
  note t4 = mp[OF conjunct2[OF conjunct2[OF conjunct2[OF t']]] bad]
  have e: "snd (draw_normal counting_framework \<lparr>loc = zeros 1 64, scale = zeros 1 64\<rparr>
      counting_world) \<noteq> counting_world"
  proof
    assume "snd (draw_normal counting_framework \<lparr>loc = zeros 1 64, scale = zeros 1 64\<rparr>
      counting_world) = counting_world"
    then have "fw_state (snd (draw_normal counting_framework
        \<lparr>loc = zeros 1 64, scale = zeros 1 64\<rparr> counting_world)) = fw_state counting_world"
      by simp
    then show False
      by (simp add: draw_normal_def counting_framework_def counting_world_def)
  qed
  show ?thesis
    by (intro conjI a b c d g t1 t2 conjunct1[OF t3] conjunct1[OF conjunct2[OF t3]]
        conjunct2[OF conjunct2[OF t3]] t4 e)
qed

subsection \<open>The mean loss\<close>

text \<open>
  Claim C6. On a loader with a non-empty dataset, \<open>data_loop\<close> returns the sum over
  the batches of the loss the model returned times the batch size, divided by the size of
  the dataset; the value it prints is the value it returns. In an epoch the two scalars
  the writer gets are the values the two calls of \<open>data_loop\<close> returned and printed.
  (The \<open>print\<close> renders the value with four decimals; the events carry the value.)
\<close>

theorem data_loop_weighted_mean:
  assumes "dataset_len ld \<noteq> 0" and "dataset_len trl \<noteq> 0" and "dataset_len tel \<noteq> 0"
  shows "(\<exists>v w' calls.
            data_loop G epoch ld (recording M) train_mode ((w, []), out) =
              (Inr v, (w', calls),
               out @ [if train_mode then Print_train_loss epoch v else Print_test_loss v]) \<and>
            data_loop G epoch ld M train_mode (w, out) =
              (Inr v, w', out @ [if train_mode then Print_train_loss epoch v else Print_test_loss v]) \<and>
            length calls = length (batches ld) \<and>
            v = (\<Sum>(l, n)\<leftarrow>zip (map call_loss calls) (map (\<lambda>(d, _). length d) (batches ld)).
                   l * real n) / real (dataset_len ld)) \<and>
         (\<exists>a wa b wb img wc.
            data_loop G epoch trl M True (w, out) = (Inr a, wa, out @ [Print_train_loss epoch a]) \<and>
            data_loop G epoch tel M False (wa, out @ [Print_train_loss epoch a]) =
              (Inr b, wb, out @ [Print_train_loss epoch a, Print_test_loss b]) \<and>
            plot_image_from_latent G gen smean batch_size wb = (img, wc) \<and>
            epoch_body G M gen smean trl tel epoch (w, out) =
              (Inr (), wc,
               out @ [Print_train_loss epoch a, Print_test_loss b,
                      Add_scalar ''train_loss'' a epoch, Add_scalar ''test_loss'' b epoch,
                      Add_image ''Image_from_latent'' (map (\<lambda>m. [m]) img) epoch]))"
proof (rule conjI)
  let ?r = "batch_loop G (recording M) train_mode (batches ld) (0, w, [])"
  define v where "v = fst ?r / real (dataset_len ld)"
  let ?p = "if train_mode then Print_train_loss epoch v else Print_test_loss v"
  have f1: "data_loop G epoch ld (recording M) train_mode ((w, []), out) =
      (Inr v, (fst (snd ?r), snd (snd ?r)), out @ [?p])"
    unfolding data_loop_unfold using assms(1) by (simp add: v_def)
  have f2: "data_loop G epoch ld M train_mode (w, out) = (Inr v, fst (snd ?r), out @ [?p])"
    unfolding data_loop_unfold using assms(1)
    by (simp add: v_def batch_loop_recording_state)
  have f3: "length (snd (snd ?r)) = length (batches ld)"
    by (rule batch_loop_recorded_length)
  have f4: "v = (\<Sum>(l, n)\<leftarrow>zip (map call_loss (snd (snd ?r)))
      (map (\<lambda>(d, _). length d) (batches ld)). l * real n) / real (dataset_len ld)"
    unfolding v_def by (subst batch_loop_recorded_sum) simp
  show "\<exists>v w' calls.
      data_loop G epoch ld (recording M) train_mode ((w, []), out) =
        (Inr v, (w', calls),
         out @ [if train_mode then Print_train_loss epoch v else Print_test_loss v]) \<and>
      data_loop G epoch ld M train_mode (w, out) =
        (Inr v, w', out @ [if train_mode then Print_train_loss epoch v else Print_test_loss v]) \<and>
      length calls = length (batches ld) \<and>
      v = (\<Sum>(l, n)\<leftarrow>zip (map call_loss calls) (map (\<lambda>(d, _). length d) (batches ld)).
             l * real n) / real (dataset_len ld)"
    by (rule exI[of _ v], rule exI[of _ "fst (snd ?r)"], rule exI[of _ "snd (snd ?r)"])
      (intro conjI f1 f2 f3 f4)
next
  let ?t = "batch_loop G M True (batches trl) (0, w)"
  define a where "a = fst ?t / real (dataset_len trl)"
  let ?e = "batch_loop G M False (batches tel) (0, snd ?t)"
  define b where "b = fst ?e / real (dataset_len tel)"
  let ?P = "plot_image_from_latent G gen smean batch_size (snd ?e)"
  have g1: "data_loop G epoch trl M True (w, out) = (Inr a, snd ?t, out @ [Print_train_loss epoch a])"
    unfolding data_loop_unfold using assms(2) by (simp add: a_def)
  have g2: "data_loop G epoch tel M False (snd ?t, out @ [Print_train_loss epoch a]) =
      (Inr b, snd ?e, out @ [Print_train_loss epoch a, Print_test_loss b])"
    unfolding data_loop_unfold using assms(3) by (simp add: b_def)
  have g3: "?P = (fst ?P, snd ?P)" by simp
  have g4: "epoch_body G M gen smean trl tel epoch (w, out) =
      (Inr (), snd ?P,
       out @ [Print_train_loss epoch a, Print_test_loss b,
              Add_scalar ''train_loss'' a epoch, Add_scalar ''test_loss'' b epoch,
              Add_image ''Image_from_latent'' (map (\<lambda>m. [m]) (fst ?P)) epoch])"
    unfolding epoch_body_def g1 by (simp add: g2 Let_def split: prod.splits)
  show "\<exists>a wa b wb img wc.
      data_loop G epoch trl M True (w, out) = (Inr a, wa, out @ [Print_train_loss epoch a]) \<and>
      data_loop G epoch tel M False (wa, out @ [Print_train_loss epoch a]) =
        (Inr b, wb, out @ [Print_train_loss epoch a, Print_test_loss b]) \<and>
      plot_image_from_latent G gen smean batch_size wb = (img, wc) \<and>
      epoch_body G M gen smean trl tel epoch (w, out) =
        (Inr (), wc,
         out @ [Print_train_loss epoch a, Print_test_loss b,
                Add_scalar ''train_loss'' a epoch, Add_scalar ''test_loss'' b epoch,
                Add_image ''Image_from_latent'' (map (\<lambda>m. [m]) img) epoch])"
    by (rule exI[of _ a], rule exI[of _ "snd ?t"], rule exI[of _ b], rule exI[of _ "snd ?e"],
        rule exI[of _ "fst ?P"], rule exI[of _ "snd ?P"])
      (intro conjI g1 g2 g3 g4)
qed

text \<open>
  The example loader with the constant model: losses 2 and 2 on batches of 2 and 1
  images, over a dataset of 3, make \<open>(2 * 2 + 2 * 1) / 3 = 2\<close>.
\<close>

theorem data_loop_weighted_mean_witness:
  "dataset_len example_loader \<noteq> 0 \<and>
   fst (data_loop example_globals 1 example_loader constant_model True (example_world, [])) =
     Inr 2 \<and>
   (\<exists>v w' calls.
      data_loop example_globals 1 example_loader (recording constant_model) True
        ((example_world, []), []) =
        (Inr v, (w', calls), [] @ [if True then Print_train_loss 1 v else Print_test_loss v]) \<and>
      data_loop example_globals 1 example_loader constant_model True (example_world, []) =
        (Inr v, w', [] @ [if True then Print_train_loss 1 v else Print_test_loss v]) \<and>
      length calls = length (batches example_loader) \<and>
      v = (\<Sum>(l, n)\<leftarrow>zip (map call_loss calls)
                           (map (\<lambda>(d, _). length d) (batches example_loader)). l * real n) /
          real (dataset_len example_loader)) \<and>
   (\<exists>a wa b wb img wc.
      data_loop example_globals 1 example_loader constant_model True (example_world, []) =
        (Inr a, wa, [] @ [Print_train_loss 1 a]) \<and>
      data_loop example_globals 1 example_loader constant_model False
        (wa, [] @ [Print_train_loss 1 a]) =
        (Inr b, wb, [] @ [Print_train_loss 1 a, Print_test_loss b]) \<and>
      plot_image_from_latent example_globals
        (generate_from_prior_sample mean_framework example_globals)
        (decoder_sample_mean example_globals) batch_size wb = (img, wc) \<and>
      epoch_body example_globals constant_model
        (generate_from_prior_sample mean_framework example_globals)
        (decoder_sample_mean example_globals) example_loader example_loader 1
        (example_world, []) =
        (Inr (), wc,
         [] @ [Print_train_loss 1 a, Print_test_loss b,
               Add_scalar ''train_loss'' a 1, Add_scalar ''test_loss'' b 1,
               Add_image ''Image_from_latent'' (map (\<lambda>m. [m]) img) 1]))"
proof -
  have n: "dataset_len example_loader \<noteq> 0" by (simp add: example_loader_def)
  have v: "fst (data_loop example_globals 1 example_loader constant_model True
      (example_world, [])) = Inr 2"
    by (simp add: data_loop_def example_loader_def constant_model_def Let_def)
  show ?thesis
    by (rule conjI[OF n conjI[OF v data_loop_weighted_mean[OF n n n]]])
qed

subsection \<open>Nothing of a batch reaches a later batch\<close>






















subsection \<open>The feature extractors are shared\<close>

text \<open>
  Claim C10. In the modules the notebook builds, \<open>Inference\<close> and \<open>Recurrence\<close> hold
  the one \<open>Phi_x\<close> object bound to \<open>f_phi_x\<close>, and \<open>Generator\<close> and \<open>Recurrence\<close>
  the one \<open>Phi_z\<close> object bound to \<open>f_phi_z\<close>. So in every parameter store, that is
  at every time of a run, the feature extraction of \<open>x\<close> is the same function in
  \<open>Inference\<close> and in \<open>Recurrence\<close>, that of \<open>z\<close> the same in \<open>Generator\<close> and
  in \<open>Recurrence\<close>, and an update of the layer reached through one module is the layer
  the other module applies. Both modules of a pair see their input through that one
  function only: inputs with the same features give the same forward pass.
\<close>

theorem feature_extractors_are_shared:
  assumes G: "G = fst (notebook_init ini)"
  shows "inf_f_phi_x (encoder G) = f_phi_x G \<and>
         rec_f_phi_x (recurrence G) = f_phi_x G \<and>
         gen_f_phi_z (decoder G) = f_phi_z G \<and>
         rec_f_phi_z (recurrence G) = f_phi_z G \<and>
         (\<forall>\<theta> x. Phi_x_forward \<theta> (inf_f_phi_x (encoder G)) x =
                 Phi_x_forward \<theta> (rec_f_phi_x (recurrence G)) x) \<and>
         (\<forall>\<theta> z. Phi_z_forward \<theta> (gen_f_phi_z (decoder G)) z =
                 Phi_z_forward \<theta> (rec_f_phi_z (recurrence G)) z) \<and>
         (\<forall>\<theta> l x.
            Phi_x_forward
              (\<theta>\<lparr>linear_at := (linear_at \<theta>)(phi_x_fc0 (inf_f_phi_x (encoder G)) := l)\<rparr>)
              (rec_f_phi_x (recurrence G)) x =
            map (map relu) (Linear_forward l x)) \<and>
         (\<forall>\<theta> l z.
            Phi_z_forward
              (\<theta>\<lparr>linear_at := (linear_at \<theta>)(phi_z_fc0 (gen_f_phi_z (decoder G)) := l)\<rparr>)
              (rec_f_phi_z (recurrence G)) z =
            map (map relu) (Linear_forward l z)) \<and>
         (\<forall>\<theta> x x' z h.
            Phi_x_forward \<theta> (f_phi_x G) x = Phi_x_forward \<theta> (f_phi_x G) x' \<longrightarrow>
            Inference_forward \<theta> (encoder G) x h = Inference_forward \<theta> (encoder G) x' h \<and>
            Recurrence_forward \<theta> (recurrence G) x z h =
              Recurrence_forward \<theta> (recurrence G) x' z h) \<and>
         (\<forall>\<theta> z z' x h.
            Phi_z_forward \<theta> (f_phi_z G) z = Phi_z_forward \<theta> (f_phi_z G) z' \<longrightarrow>
            Generator_forward \<theta> (decoder G) z h = Generator_forward \<theta> (decoder G) z' h \<and>
            Recurrence_forward \<theta> (recurrence G) x z h =
              Recurrence_forward \<theta> (recurrence G) x z' h)"
proof -
  have handles: "inf_f_phi_x (encoder G) = f_phi_x G \<and> rec_f_phi_x (recurrence G) = f_phi_x G \<and>
      gen_f_phi_z (decoder G) = f_phi_z G \<and> rec_f_phi_z (recurrence G) = f_phi_z G"
    unfolding G notebook_globals by simp
  have upd_x: "Phi_x_forward (\<theta>\<lparr>linear_at := (linear_at \<theta>)(phi_x_fc0 (f_phi_x G) := l)\<rparr>)
      (f_phi_x G) x = map (map relu) (Linear_forward l x)" for \<theta> l x
    by (simp add: Phi_x_forward_def)
  have upd_z: "Phi_z_forward (\<theta>\<lparr>linear_at := (linear_at \<theta>)(phi_z_fc0 (f_phi_z G) := l)\<rparr>)
      (f_phi_z G) z = map (map relu) (Linear_forward l z)" for \<theta> l z
    by (simp add: Phi_z_forward_def)
  have only_x: "Inference_forward \<theta> (encoder G) x h = Inference_forward \<theta> (encoder G) x' h \<and>
      Recurrence_forward \<theta> (recurrence G) x z h = Recurrence_forward \<theta> (recurrence G) x' z h"
    if "Phi_x_forward \<theta> (f_phi_x G) x = Phi_x_forward \<theta> (f_phi_x G) x'" for \<theta> x x' z h
    using that by (simp add: Inference_forward_def Recurrence_forward_def handles)
  have only_z: "Generator_forward \<theta> (decoder G) z h = Generator_forward \<theta> (decoder G) z' h \<and>
      Recurrence_forward \<theta> (recurrence G) x z h = Recurrence_forward \<theta> (recurrence G) x z' h"
    if "Phi_z_forward \<theta> (f_phi_z G) z = Phi_z_forward \<theta> (f_phi_z G) z'" for \<theta> z z' x h
    using that by (simp add: Generator_forward_def Recurrence_forward_def handles)
  have c1: "inf_f_phi_x (encoder G) = f_phi_x G" and c2: "rec_f_phi_x (recurrence G) = f_phi_x G"
    and c3: "gen_f_phi_z (decoder G) = f_phi_z G" and c4: "rec_f_phi_z (recurrence G) = f_phi_z G"
    using handles by simp_all
  have e_x: "\<forall>\<theta> x. Phi_x_forward \<theta> (inf_f_phi_x (encoder G)) x =
      Phi_x_forward \<theta> (rec_f_phi_x (recurrence G)) x"
    by (simp add: handles)
  have e_z: "\<forall>\<theta> z. Phi_z_forward \<theta> (gen_f_phi_z (decoder G)) z =
      Phi_z_forward \<theta> (rec_f_phi_z (recurrence G)) z"
    by (simp add: handles)
  have u_x: "\<forall>\<theta> l x.
      Phi_x_forward
        (\<theta>\<lparr>linear_at := (linear_at \<theta>)(phi_x_fc0 (inf_f_phi_x (encoder G)) := l)\<rparr>)
        (rec_f_phi_x (recurrence G)) x =
      map (map relu) (Linear_forward l x)"
    unfolding c1 c2 by (intro allI) (rule upd_x)
  have u_z: "\<forall>\<theta> l z.
      Phi_z_forward
        (\<theta>\<lparr>linear_at := (linear_at \<theta>)(phi_z_fc0 (gen_f_phi_z (decoder G)) := l)\<rparr>)
        (rec_f_phi_z (recurrence G)) z =
      map (map relu) (Linear_forward l z)"
    unfolding c3 c4 by (intro allI) (rule upd_z)
  have o_x: "\<forall>\<theta> x x' z h.
      Phi_x_forward \<theta> (f_phi_x G) x = Phi_x_forward \<theta> (f_phi_x G) x' \<longrightarrow>
      Inference_forward \<theta> (encoder G) x h = Inference_forward \<theta> (encoder G) x' h \<and>
      Recurrence_forward \<theta> (recurrence G) x z h =
        Recurrence_forward \<theta> (recurrence G) x' z h"
    by (intro allI impI) (rule only_x)
  have o_z: "\<forall>\<theta> z z' x h.
      Phi_z_forward \<theta> (f_phi_z G) z = Phi_z_forward \<theta> (f_phi_z G) z' \<longrightarrow>
      Generator_forward \<theta> (decoder G) z h = Generator_forward \<theta> (decoder G) z' h \<and>
      Recurrence_forward \<theta> (recurrence G) x z h =
        Recurrence_forward \<theta> (recurrence G) x z' h"
    by (intro allI impI) (rule only_z)
  show ?thesis
    by (rule conjI[OF c1 conjI[OF c2 conjI[OF c3 conjI[OF c4 conjI[OF e_x conjI[OF e_z
        conjI[OF u_x conjI[OF u_z conjI[OF o_x o_z]]]]]]]]])
qed

text \<open>The modules built from the all-zero initial entries.\<close>

theorem feature_extractors_are_shared_witness:
  "example_globals = fst (notebook_init zero_init) \<and>
   inf_f_phi_x (encoder example_globals) = rec_f_phi_x (recurrence example_globals) \<and>
   gen_f_phi_z (decoder example_globals) = rec_f_phi_z (recurrence example_globals) \<and>
   Phi_x_forward other_weights (inf_f_phi_x (encoder example_globals)) (zeros 1 28) =
     Phi_x_forward other_weights (rec_f_phi_x (recurrence example_globals)) (zeros 1 28) \<and>
   Phi_z_forward other_weights (gen_f_phi_z (decoder example_globals)) (zeros 1 64) =
     Phi_z_forward other_weights (rec_f_phi_z (recurrence example_globals)) (zeros 1 64)"
  using feature_extractors_are_shared[OF example_globals_def]
  by (simp add: example_globals_def)

subsection \<open>The constructors, the empty dataset and the ten epochs\<close>

text \<open>
  The constructors of cells 4 and 5 give every layer the shape its \<open>nn.Linear\<close> or
  \<open>nn.GRUCell\<close> call declares, whatever the initial entries.
\<close>

theorem constructors_give_declared_shapes:
  "well_shaped (fst (notebook_init ini)) (snd (notebook_init ini))"
  by (rule notebook_init_well_shaped)

text \<open>
  On a loader whose dataset is empty, \<open>data_loop\<close> raises \<open>ZeroDivisionError\<close> at
  the division: after the batch loop has run and before anything is printed.
\<close>

theorem data_loop_empty_dataset_raises:
  assumes "dataset_len ld = 0"
  shows "data_loop G epoch ld M train_mode (w, out) =
           (Inl ZeroDivisionError, snd (batch_loop G M train_mode (batches ld) (0, w)), out)"
  unfolding data_loop_unfold using assms by simp

theorem data_loop_empty_dataset_raises_witness:
  "dataset_len \<lparr>dataset_len = 0, batches = []\<rparr> = 0 \<and>
   data_loop example_globals 1 \<lparr>dataset_len = 0, batches = []\<rparr> constant_model True
     (example_world, []) =
     (Inl ZeroDivisionError, example_world, [])"
proof -
  have z: "dataset_len \<lparr>dataset_len = 0, batches = []\<rparr> = 0" by simp
  show ?thesis
    using z data_loop_empty_dataset_raises[OF z, of example_globals 1 constant_model True
        example_world "[]"]
    by simp
qed

text \<open>
  When no pass has an empty dataset, the epoch loop of cell 10 completes: it writes five
  records per epoch, and the train scalars, the test scalars and the images are those of
  epochs 1 to 10 in this order.
\<close>

lemma epoch_body_events:
  assumes "dataset_len trl \<noteq> 0" and "dataset_len tel \<noteq> 0"
  shows "\<exists>a b img w'.
      epoch_body G M gen smean trl tel epoch (w, out) =
        (Inr (), w',
         out @ [Print_train_loss epoch a, Print_test_loss b,
                Add_scalar ''train_loss'' a epoch, Add_scalar ''test_loss'' b epoch,
                Add_image ''Image_from_latent'' img epoch])"
proof -
  let ?t = "batch_loop G M True (batches trl) (0, w)"
  let ?a = "fst ?t / real (dataset_len trl)"
  let ?e = "batch_loop G M False (batches tel) (0, snd ?t)"
  let ?b = "fst ?e / real (dataset_len tel)"
  let ?P = "plot_image_from_latent G gen smean batch_size (snd ?e)"
  have g1: "data_loop G epoch trl M True (w, out) =
      (Inr ?a, snd ?t, out @ [Print_train_loss epoch ?a])"
    unfolding data_loop_unfold using assms(1) by simp
  have g2: "data_loop G epoch tel M False (snd ?t, out @ [Print_train_loss epoch ?a]) =
      (Inr ?b, snd ?e, out @ [Print_train_loss epoch ?a, Print_test_loss ?b])"
    unfolding data_loop_unfold using assms(2) by simp
  have "epoch_body G M gen smean trl tel epoch (w, out) =
      (Inr (), snd ?P,
       out @ [Print_train_loss epoch ?a, Print_test_loss ?b,
              Add_scalar ''train_loss'' ?a epoch, Add_scalar ''test_loss'' ?b epoch,
              Add_image ''Image_from_latent'' (map (\<lambda>m. [m]) (fst ?P)) epoch])"
    unfolding epoch_body_def g1 by (simp add: g2 Let_def split: prod.splits)
  then show ?thesis by blast
qed

lemma epoch_loop_events:
  assumes "list_all (\<lambda>e. dataset_len (trl e) \<noteq> 0 \<and> dataset_len (tel e) \<noteq> 0) es"
  shows "\<exists>w' new.
      epoch_loop G M gen smean trl tel es (w, out) = (Inr (), w', out @ new) \<and>
      [e. Add_scalar tag v e \<leftarrow> new, tag = ''train_loss''] = es \<and>
      [e. Add_scalar tag v e \<leftarrow> new, tag = ''test_loss''] = es \<and>
      [e. Add_image tag img e \<leftarrow> new] = es \<and>
      length new = 5 * length es"
  using assms
proof (induction es arbitrary: w out)
  case Nil
  show ?case by simp
next
  case (Cons e es)
  have ok: "dataset_len (trl e) \<noteq> 0" "dataset_len (tel e) \<noteq> 0"
    and rest: "list_all (\<lambda>e. dataset_len (trl e) \<noteq> 0 \<and> dataset_len (tel e) \<noteq> 0) es"
    using Cons.prems by simp_all
  obtain a b img w1 where
    body: "epoch_body G M gen smean (trl e) (tel e) e (w, out) =
        (Inr (), w1,
         out @ [Print_train_loss e a, Print_test_loss b,
                Add_scalar ''train_loss'' a e, Add_scalar ''test_loss'' b e,
                Add_image ''Image_from_latent'' img e])"
    using epoch_body_events[OF ok, of G M gen smean e w out] by blast
  define out1 where "out1 = out @ [Print_train_loss e a, Print_test_loss b,
      Add_scalar ''train_loss'' a e, Add_scalar ''test_loss'' b e, Add_image ''Image_from_latent'' img e]"
  obtain w' new where
    r: "epoch_loop G M gen smean trl tel es (w1, out1) = (Inr (), w', out1 @ new)"
    and tr: "[e. Add_scalar tag v e \<leftarrow> new, tag = ''train_loss''] = es"
    and te: "[e. Add_scalar tag v e \<leftarrow> new, tag = ''test_loss''] = es"
    and im: "[e. Add_image tag img e \<leftarrow> new] = es"
    and ln: "length new = 5 * length es"
    using Cons.IH[OF rest, of w1 out1] by blast
  define new' where "new' = [Print_train_loss e a, Print_test_loss b,
      Add_scalar ''train_loss'' a e, Add_scalar ''test_loss'' b e, Add_image ''Image_from_latent'' img e] @ new"
  have f1: "epoch_loop G M gen smean trl tel (e # es) (w, out) = (Inr (), w', out @ new')"
    using body r by (simp add: out1_def new'_def)
  have f2: "[e. Add_scalar tag v e \<leftarrow> new', tag = ''train_loss''] = e # es"
    using tr by (simp add: new'_def)
  have f3: "[e. Add_scalar tag v e \<leftarrow> new', tag = ''test_loss''] = e # es"
    using te by (simp add: new'_def)
  have f4: "[e. Add_image tag img e \<leftarrow> new'] = e # es"
    using im by (simp add: new'_def)
  have f5: "length new' = 5 * length (e # es)"
    using ln by (simp add: new'_def)
  show ?case
    by (rule exI[of _ w'], rule exI[of _ new']) (intro conjI f1 f2 f3 f4 f5)
qed

theorem notebook_epochs_complete:
  assumes "list_all (\<lambda>e. dataset_len (train_loader e) \<noteq> 0 \<and> dataset_len (test_loader e) \<noteq> 0)
             [1..<epochs + 1]"
  shows "\<exists>w' evs.
      notebook_epochs G vrnn gen smean train_loader test_loader w = (Inr (), w', evs) \<and>
      [e. Add_scalar tag v e \<leftarrow> evs, tag = ''train_loss''] = [1..<11] \<and>
      [e. Add_scalar tag v e \<leftarrow> evs, tag = ''test_loss''] = [1..<11] \<and>
      [e. Add_image tag img e \<leftarrow> evs] = [1..<11] \<and>
      length evs = 50"
  using epoch_loop_events[OF assms, of G vrnn gen smean w "[]"]
  by (simp add: notebook_epochs_def epochs_def)

theorem notebook_epochs_complete_witness:
  "\<exists>w' evs.
      notebook_epochs example_globals constant_model
        (generate_from_prior_sample mean_framework example_globals)
        (decoder_sample_mean example_globals) (\<lambda>e. example_loader) (\<lambda>e. example_loader)
        example_world = (Inr (), w', evs) \<and>
      [e. Add_scalar tag v e \<leftarrow> evs, tag = ''train_loss''] = [1..<11] \<and>
      [e. Add_scalar tag v e \<leftarrow> evs, tag = ''test_loss''] = [1..<11] \<and>
      [e. Add_image tag img e \<leftarrow> evs] = [1..<11] \<and>
      length evs = 50"
proof -
  have ok: "list_all (\<lambda>e. dataset_len ((\<lambda>e. example_loader) e) \<noteq> 0 \<and>
      dataset_len ((\<lambda>e. example_loader) e) \<noteq> 0) [1..<epochs + 1]"
    by (simp add: list_all_iff example_loader_def)
  show ?thesis
    by (rule notebook_epochs_complete[OF ok])
qed

subsection \<open>The activations\<close>































lemma relu_f32_zeros:
  "map (map relu_f32) (replicate b (replicate n (Finite 0))) = replicate b (replicate n (Finite 0))"
  by simp














end
